theory Spec2Isabelle
  imports Complex_Main "HOL-Library.Sublist" "HOL-Library.AList"
begin

section \<open>Python strings\<close>

text \<open>
  Strings are \<^typ>\<open>string\<close>. The source works on Unicode text; the model is exact on ASCII
  text, which is what the sentinel separator, the title keyword, the schema names and the
  decimal numbers of the source are made of.
\<close>

text \<open>\<^verbatim>\<open>str.isspace\<close> on ASCII, also the class \<^verbatim>\<open>\s\<close> of \<^verbatim>\<open>re\<close>:
  tab, line feed, vertical tab, form feed, carriage return, the four separators
  0x1c..0x1f and the space.\<close>

definition whitespace :: "char list" where
  "whitespace = [CHR 0x09, CHR 0x0A, CHR 0x0B, CHR 0x0C, CHR 0x0D,
                 CHR 0x1C, CHR 0x1D, CHR 0x1E, CHR 0x1F, CHR 0x20]"

definition is_space :: "char \<Rightarrow> bool" where
  "is_space c = (c \<in> set whitespace)"

definition upper_letters :: string where
  "upper_letters = ''ABCDEFGHIJKLMNOPQRSTUVWXYZ''"

definition lower_letters :: string where
  "lower_letters = ''abcdefghijklmnopqrstuvwxyz''"

text \<open>The character class \<^verbatim>\<open>[a-zA-Z]\<close>.\<close>

definition is_letter :: "char \<Rightarrow> bool" where
  "is_letter c = (c \<in> set lower_letters \<or> c \<in> set upper_letters)"

definition lower_char :: "char \<Rightarrow> char" where
  "lower_char c = (case map_of (zip upper_letters lower_letters) c of Some d \<Rightarrow> d | None \<Rightarrow> c)"

definition upper_char :: "char \<Rightarrow> char" where
  "upper_char c = (case map_of (zip lower_letters upper_letters) c of Some d \<Rightarrow> d | None \<Rightarrow> c)"

text \<open>\<^verbatim>\<open>s.lower()\<close> and \<^verbatim>\<open>s.upper()\<close>.\<close>

definition lower :: "string \<Rightarrow> string" where
  "lower s = map lower_char s"

definition upper :: "string \<Rightarrow> string" where
  "upper s = map upper_char s"

text \<open>\<^verbatim>\<open>s.strip()\<close>.\<close>

definition strip :: "string \<Rightarrow> string" where
  "strip s = rev (dropWhile is_space (rev (dropWhile is_space s)))"

text \<open>\<^verbatim>\<open>sep in s\<close>.\<close>

fun contains :: "string \<Rightarrow> string \<Rightarrow> bool" where
  "contains sep [] = (sep = [])"
| "contains sep (c # s) = (prefix sep (c # s) \<or> contains sep s)"

text \<open>\<^verbatim>\<open>s.split(sep)\<close> for a non-empty separator: the text is cut at each occurrence
  of \<open>sep\<close>, found from left to right without overlap. \<open>cur\<close> is the part being read.\<close>

fun split_from :: "string \<Rightarrow> string \<Rightarrow> string \<Rightarrow> string list" where
  "split_from sep cur [] = [cur]"
| "split_from sep cur (c # s) =
     (if sep \<noteq> [] \<and> prefix sep (c # s)
      then cur # split_from sep [] (drop (length sep - 1) s)
      else split_from sep (cur @ [c]) s)"

definition split :: "string \<Rightarrow> string \<Rightarrow> string list" where
  "split sep s = split_from sep [] s"

text \<open>\<^verbatim>\<open>"\n".join(xs)\<close>.\<close>

fun join_lines :: "string list \<Rightarrow> string" where
  "join_lines [] = []"
| "join_lines [x] = x"
| "join_lines (x # y # ys) = x @ [CHR 0x0A] @ join_lines (y # ys)"

section \<open>Exceptions\<close>

text \<open>
  An exception is its class and the text \<^verbatim>\<open>str(e)\<close>. A function of the source that
  may raise returns \<open>exn + 'a\<close>, \<open>Inl\<close> being the raise. \<open>ReadTimeout\<close> and
  \<open>ConnectionError\<close> are subclasses of \<open>RequestException\<close>.
\<close>

datatype exn_class =
  ReadTimeout | ConnectionError | RequestException | KeyError | ValueError
  | RuntimeError | FileNotFoundError | TypeError | AttributeError | OtherError

datatype exn = Exn exn_class string

fun class_of :: "exn \<Rightarrow> exn_class" where
  "class_of (Exn c m) = c"

fun str_of :: "exn \<Rightarrow> string" where
  "str_of (Exn c m) = m"

definition is_RequestException :: "exn \<Rightarrow> bool" where
  "is_RequestException e = (class_of e \<in> {ReadTimeout, ConnectionError, RequestException})"

section \<open>The world outside the program\<close>

record issue =
  issue_title :: string
  issue_body :: "string option"
  issue_number :: string
  author_login :: string
  createdAt :: string
  issue_url :: string

text \<open>What the program reads of an HTTP response: the status, the headers, and what
  decoding the JSON body into the value the caller builds from it gives (or raises).\<close>

record 'a response =
  status_code :: int
  headers :: "(string \<times> string) list"
  json :: "exn + 'a"

datatype 'a outcome = Raises exn | Returns "'a response"

text \<open>The three mutating calls on the tracker, with the issue number first.\<close>

datatype api_call = AddLabel string string | AddComment string string | CloseIssue string

text \<open>
  The payload of an accepted contribution. \<open>'row\<close> is a row as \<^verbatim>\<open>csv.DictReader\<close>
  gives it.
\<close>

record 'row payload =
  data_title :: string
  data_metadata :: "'row list"
  data_citations :: "'row list"
  generatedAtTime :: string
  wasAttributedTo :: "int option"
  hadPrimarySource :: string

text \<open>
  Everything the program gets from outside, as one value:
  \<^item> \<open>GH_TOKEN\<close>: the environment variable, \<open>None\<close> when unset;
  \<^item> \<open>users_api u k\<close>: what \<^verbatim>\<open>requests.get\<close> on the user \<open>u\<close> does at attempt \<open>k\<close>
    of a lookup, \<open>issues_api k\<close> the same for the issue listing;
  \<^item> \<open>time_time k\<close>: what \<^verbatim>\<open>time.time()\<close> returns when read during attempt \<open>k\<close>
    (a float, taken as the real number it stands for);
  \<^item> \<open>tracker_api c\<close>: \<open>Some e\<close> when the mutating call \<open>c\<close> raises \<open>e\<close>
    (an HTTP error status is not raised: the source never checks it);
  \<^item> \<open>safe_list_file\<close>: the content of \<^verbatim>\<open>safe_list.txt\<close>, \<open>None\<close> when absent;
  \<^item> \<open>id_is_valid schema use_api ident\<close>: \<^verbatim>\<open>is_valid\<close> of the identifier manager
    of the schema;
  \<^item> \<open>closure_validator meta cits\<close>: the body of the \<^verbatim>\<open>try\<close> of \<^verbatim>\<open>validate\<close> up to
    the reading of the summaries: \<open>Inl e\<close> when writing the two files or the external
    validator raises \<open>e\<close>, else the content of the metadata and of the citations summary
    file, \<open>None\<close> for a file that does not exist;
  \<^item> \<open>csv_DictReader text\<close>: \<^verbatim>\<open>list(csv.DictReader(io.StringIO(text)))\<close>;
  \<^item> \<open>zenodo_deposit data\<close>: \<open>Some e\<close> when \<^verbatim>\<open>deposit_on_zenodo\<close> raises \<open>e\<close>.
\<close>

record 'row world =
  GH_TOKEN :: "string option"
  users_api :: "string \<Rightarrow> nat \<Rightarrow> int option outcome"
  issues_api :: "nat \<Rightarrow> issue list outcome"
  time_time :: "nat \<Rightarrow> real"
  tracker_api :: "api_call \<Rightarrow> exn option"
  safe_list_file :: "string option"
  id_is_valid :: "string \<Rightarrow> bool \<Rightarrow> string \<Rightarrow> exn + bool"
  closure_validator :: "string \<Rightarrow> string \<Rightarrow> exn + (string option \<times> string option)"
  csv_DictReader :: "string \<Rightarrow> exn + 'row list"
  zenodo_deposit :: "'row payload list \<Rightarrow> exn option"

section \<open>The title\<close>

text \<open>
  \<^verbatim>\<open>re.search(r"deposit\s+(.+?)\s+([a-zA-Z]+):(.+)", title, re.IGNORECASE)\<close>, written as
  the backtracking search it is. The result is the three groups of the first match in
  the order the matcher tries them.
\<close>

definition newline :: char where
  "newline = CHR 0x0A"

text \<open>\<^verbatim>\<open>(.+)\<close> at the end of the pattern: greedy, every character up to a line feed, at
  least one.\<close>

definition match_identifier :: "string \<Rightarrow> string option" where
  "match_identifier s =
     (let g = takeWhile (\<lambda>c. c \<noteq> newline) s in if g = [] then None else Some g)"

text \<open>\<^verbatim>\<open>([a-zA-Z]+):(.+)\<close>: the letters are taken greedily; giving one back leaves a
  letter where the colon must be, so only the whole run can match.\<close>

definition match_schema :: "string \<Rightarrow> (string \<times> string) option" where
  "match_schema s =
     (let sch = takeWhile is_letter s in
      if sch = [] then None
      else (case dropWhile is_letter s of
              [] \<Rightarrow> None
            | c # r \<Rightarrow>
                if c = CHR '':'' then
                  (case match_identifier r of None \<Rightarrow> None | Some ident \<Rightarrow> Some (sch, ident))
                else None))"

text \<open>\<^verbatim>\<open>\s+([a-zA-Z]+):(.+)\<close>: giving a space back leaves a space where a letter must
  be, so only the whole run of spaces can match.\<close>

definition match_space_schema :: "string \<Rightarrow> (string \<times> string) option" where
  "match_space_schema s =
     (if takeWhile is_space s = [] then None else match_schema (dropWhile is_space s))"

text \<open>\<^verbatim>\<open>(.+?)\s+([a-zA-Z]+):(.+)\<close>: the domain is lazy, one character longer at each
  failure of what follows, and never crosses a line feed. \<open>acc\<close> is the domain read.\<close>

fun match_domain :: "string \<Rightarrow> string \<Rightarrow> (string \<times> string \<times> string) option" where
  "match_domain acc [] = None"
| "match_domain acc (c # s) =
     (if c = newline then None
      else (case match_space_schema s of
              Some (sch, ident) \<Rightarrow> Some (acc @ [c], sch, ident)
            | None \<Rightarrow> match_domain (acc @ [c]) s))"

text \<open>The \<^verbatim>\<open>\s+\<close> after the keyword: greedy, it takes \<open>k\<close> spaces and gives them
  back one by one (the domain may start with a space).\<close>

fun match_spaces :: "nat \<Rightarrow> string \<Rightarrow> (string \<times> string \<times> string) option" where
  "match_spaces 0 s = None"
| "match_spaces (Suc k) s =
     (case match_domain [] (drop (Suc k) s) of
        Some g \<Rightarrow> Some g
      | None \<Rightarrow> match_spaces k s)"

text \<open>The pattern at the head of \<open>s\<close>; the keyword is matched without regard to case.\<close>

definition match_here :: "string \<Rightarrow> (string \<times> string \<times> string) option" where
  "match_here s =
     (if lower (take 7 s) = ''deposit''
      then match_spaces (length (takeWhile is_space (drop 7 s))) (drop 7 s)
      else None)"

text \<open>\<^verbatim>\<open>re.search\<close>: the first position of the title where the pattern matches.\<close>

fun re_search :: "string \<Rightarrow> (string \<times> string \<times> string) option" where
  "re_search [] = match_here []"
| "re_search (c # s) =
     (case match_here (c # s) of Some g \<Rightarrow> Some g | None \<Rightarrow> re_search s)"

text \<open>The keys of \<^verbatim>\<open>manager_map\<close> and the set \<^verbatim>\<open>needs_api\<close>.\<close>

definition manager_map :: "string list" where
  "manager_map = [''doi'', ''isbn'', ''pmid'', ''pmcid'', ''url'', ''wikidata'',
                  ''wikipedia'', ''openalex'']"

definition needs_api :: "string list" where
  "needs_api = [''doi'', ''pmid'', ''pmcid'', ''url'', ''wikidata'', ''wikipedia'',
                ''openalex'']"

definition title_format_message :: string where
  "title_format_message = ''The title of the issue was not structured correctly. Please, follow this format: deposit {domain name of journal} {doi or other supported identifier}. For example \"deposit localhost:330 doi:10.1007/978-3-030-00668-6_8\". The following identifiers are currently supported: doi, isbn, pmid, pmcid, url, wikidata, wikipedia, and openalex''"

text \<open>\<^verbatim>\<open>_validate_title\<close>.\<close>

definition validate_title :: "'row world \<Rightarrow> string \<Rightarrow> exn + (bool \<times> string)" where
  "validate_title w title =
     (case re_search title of
        None \<Rightarrow> Inr (False, title_format_message)
      | Some (domain, g2, identifier) \<Rightarrow>
          (let identifier_schema = lower g2 in
           if identifier_schema \<notin> set manager_map then
             Inr (False, ''The identifier schema '' @ [CHR 0x27] @ identifier_schema
                           @ [CHR 0x27] @ '' is not supported'')
           else
             (case id_is_valid w identifier_schema (identifier_schema \<in> set needs_api) identifier of
                Inl e \<Rightarrow> Inl e
              | Inr is_valid \<Rightarrow>
                  if \<not> is_valid then
                    Inr (False, ''The identifier with literal value '' @ identifier
                                  @ '' specified in the issue title is not a valid ''
                                  @ upper identifier_schema)
                  else Inr (True, ''''))))"

section \<open>Validation of an issue\<close>

definition SEPARATOR :: string where
  "SEPARATOR = ''===###===@@@===''"

definition separator_message :: string where
  "separator_message = ''Please use the separator \"===###===@@@===\" to divide metadata from citations, as shown in the following guide: https://github.com/opencitations/crowdsourcing/blob/main/README.md''"

definition thanks_message :: string where
  "thanks_message = ''Thank you for your contribution! OpenCitations just processed the data you provided. The citations will soon be available on the [CROCI](https://opencitations.net/index/croci) index and metadata on OpenCitations Meta''"

definition error_suffix :: string where
  "error_suffix = ''. Please ensure both metadata and citations are valid CSVs following the required format.''"

text \<open>The lines read from the two summary files: a summary that does not exist or is
  blank adds nothing; a blank line separates the two blocks.\<close>

definition error_messages :: "string option \<Rightarrow> string option \<Rightarrow> string list" where
  "error_messages meta_summary cits_summary =
     (let meta_errors =
            (case meta_summary of
               None \<Rightarrow> []
             | Some text \<Rightarrow>
                 (let content = strip text in
                  if content \<noteq> [] then [''Metadata validation errors:'', content] else []))
      in case cits_summary of
           None \<Rightarrow> meta_errors
         | Some text \<Rightarrow>
             (let content = strip text in
              if content \<noteq> [] then
                (if meta_errors \<noteq> [] then meta_errors @ [''''] else meta_errors)
                @ [''Citations validation errors:'', content]
              else meta_errors))"

text \<open>
  The body of an issue is the \<^verbatim>\<open>body\<close> field of the JSON object that the tracker
  sends, which \<^verbatim>\<open>get_open_issues\<close> passes on as it is: a string, or \<^verbatim>\<open>None\<close> for the
  JSON \<^verbatim>\<open>null\<close> of an issue without a description. The membership test
  \<^verbatim>\<open>"===###===@@@===" not in issue_body\<close> raises \<^verbatim>\<open>TypeError\<close> on \<^verbatim>\<open>None\<close>, and
  \<^verbatim>\<open>issue_body.split\<close> raises \<^verbatim>\<open>AttributeError\<close>; the texts are those of the interpreter.
\<close>

definition not_iterable :: exn where
  "not_iterable =
     Exn TypeError (''argument of type '' @ [CHR 0x27] @ ''NoneType'' @ [CHR 0x27]
                    @ '' is not iterable'')"

definition no_split :: exn where
  "no_split =
     Exn AttributeError ([CHR 0x27] @ ''NoneType'' @ [CHR 0x27]
                         @ '' object has no attribute '' @ [CHR 0x27] @ ''split'' @ [CHR 0x27])"

text \<open>\<^verbatim>\<open>validate\<close>. An exception of the title check, or of the test for the separator,
  is outside the \<^verbatim>\<open>try\<close> and leaves the function; one inside it becomes a failure
  message.\<close>

definition validate ::
  "'row world \<Rightarrow> string \<Rightarrow> string option \<Rightarrow> exn + (bool \<times> string)" where
  "validate w title body =
     (case validate_title w title of
        Inl e \<Rightarrow> Inl e
      | Inr (is_valid_title, title_message) \<Rightarrow>
          if \<not> is_valid_title then Inr (False, title_message)
          else
            (case body of
               None \<Rightarrow> Inl not_iterable
             | Some text \<Rightarrow>
                 if \<not> contains SEPARATOR text then Inr (False, separator_message)
                 else
                   (case split SEPARATOR text of
                      meta # cits # rest \<Rightarrow>
                        (case closure_validator w (strip meta) (strip cits) of
                           Inl e \<Rightarrow>
                             Inr (False, ''Error validating data: '' @ str_of e @ error_suffix)
                         | Inr (meta_summary, cits_summary) \<Rightarrow>
                             (let msgs = error_messages meta_summary cits_summary in
                              if msgs \<noteq> [] then Inr (False, join_lines msgs)
                              else Inr (True, thanks_message)))
                    | _ \<Rightarrow>
                        Inr (False,
                          ''Error validating data: list index out of range'' @ error_suffix))))"

section \<open>Numbers as text\<close>

definition digit_chars :: string where
  "digit_chars = ''0123456789''"

definition digit_value :: "char \<Rightarrow> nat option" where
  "digit_value c = map_of (zip digit_chars [0, 1, 2, 3, 4, 5, 6, 7, 8, 9]) c"

text \<open>The digits of a decimal literal, read from the left. An underscore is accepted
  between two digits only; \<open>prev\<close> says that the character before was a digit.\<close>

fun digits_value :: "nat \<Rightarrow> bool \<Rightarrow> string \<Rightarrow> nat option" where
  "digits_value acc prev [] = (if prev then Some acc else None)"
| "digits_value acc prev (c # s) =
     (if c = CHR ''_'' then (if prev \<and> s \<noteq> [] then digits_value acc False s else None)
      else (case digit_value c of
              None \<Rightarrow> None
            | Some d \<Rightarrow> digits_value (10 * acc + d) True s))"

definition invalid_literal :: exn where
  "invalid_literal = Exn ValueError ''invalid literal for int() with base 10''"

text \<open>The space characters that \<^verbatim>\<open>int\<close> skips around an ASCII literal: tab, line
  feed, vertical tab, form feed, carriage return and space (the separators 0x1c..0x1f
  are not among them).\<close>

definition is_literal_space :: "char \<Rightarrow> bool" where
  "is_literal_space c =
     (c \<in> set [CHR 0x09, CHR 0x0A, CHR 0x0B, CHR 0x0C, CHR 0x0D, CHR 0x20])"

definition literal_strip :: "string \<Rightarrow> string" where
  "literal_strip s = rev (dropWhile is_literal_space (rev (dropWhile is_literal_space s)))"

text \<open>\<^verbatim>\<open>int(s)\<close> on a string: spaces around, an optional sign, decimal digits. The
  message of the error is cut before the quoted literal.\<close>

definition py_int :: "string \<Rightarrow> exn + int" where
  "py_int s =
     (case literal_strip s of
        [] \<Rightarrow> Inl invalid_literal
      | c # r \<Rightarrow>
          if c = CHR ''-'' then
            (case digits_value 0 False r of None \<Rightarrow> Inl invalid_literal | Some n \<Rightarrow> Inr (- int n))
          else if c = CHR ''+'' then
            (case digits_value 0 False r of None \<Rightarrow> Inl invalid_literal | Some n \<Rightarrow> Inr (int n))
          else
            (case digits_value 0 False (c # r) of
               None \<Rightarrow> Inl invalid_literal
             | Some n \<Rightarrow> Inr (int n)))"

fun show_nat :: "nat \<Rightarrow> string" where
  "show_nat n =
     (if n < 10 then [digit_chars ! n]
      else show_nat (n div 10) @ [digit_chars ! (n mod 10)])"

definition show_int :: "int \<Rightarrow> string" where
  "show_int n = (if n < 0 then CHR ''-'' # show_nat (nat (- n)) else show_nat (nat n))"

text \<open>\<^verbatim>\<open>str(user_id)\<close> for an identity that may be \<^verbatim>\<open>None\<close>.\<close>

definition py_str :: "int option \<Rightarrow> string" where
  "py_str user_id = (case user_id of None \<Rightarrow> ''None'' | Some n \<Rightarrow> show_int n)"

section \<open>Calls that are retried\<close>

definition MAX_RETRIES :: nat where
  "MAX_RETRIES = 3"

definition RETRY_DELAY :: real where
  "RETRY_DELAY = 5"

text \<open>What a call leaves behind: the requests sent, by attempt, and the arguments of
  \<^verbatim>\<open>time.sleep\<close>, in order.\<close>

datatype event = Get nat | Sleep real

text \<open>One turn of a retry loop ends in a \<^verbatim>\<open>return\<close>, in the next turn
  (by \<^verbatim>\<open>continue\<close> or by reaching the end of the body) after some sleeps, or in an
  exception.\<close>

datatype 'a step = Return 'a | Next "event list" | Raise exn

text \<open>The headers of a response are looked up without regard to case, as
  \<^verbatim>\<open>requests\<close> does.\<close>

definition header_get :: "(string \<times> string) list \<Rightarrow> string \<Rightarrow> string option" where
  "header_get hs k = map_of (map (\<lambda>(a, b). (lower a, b)) hs) (lower k)"

definition missing_key :: "string \<Rightarrow> exn" where
  "missing_key k = Exn KeyError ([CHR 0x27] @ k @ [CHR 0x27])"

subsection \<open>\<^verbatim>\<open>get_user_id\<close>\<close>

text \<open>The body of the \<^verbatim>\<open>try\<close>. The token is read while the arguments of the request
  are built, so inside the \<^verbatim>\<open>try\<close>.\<close>

definition user_try :: "'row world \<Rightarrow> string \<Rightarrow> nat \<Rightarrow> int option step" where
  "user_try w username attempt =
     (case GH_TOKEN w of
        None \<Rightarrow> Raise (missing_key ''GH_TOKEN'')
      | Some token \<Rightarrow>
          (case users_api w username attempt of
             Raises e \<Rightarrow> Raise e
           | Returns r \<Rightarrow>
               if status_code r = 200 then
                 (case json r of Inl e \<Rightarrow> Raise e | Inr user_id \<Rightarrow> Return user_id)
               else if status_code r = 404 then Return None
               else if status_code r = 403
                       \<and> header_get (headers r) ''X-RateLimit-Remaining'' \<noteq> None then
                 (case py_int (the (header_get (headers r) ''X-RateLimit-Remaining'')) of
                    Inl e \<Rightarrow> Raise e
                  | Inr remaining \<Rightarrow>
                      if remaining = 0 then
                        (case header_get (headers r) ''X-RateLimit-Reset'' of
                           None \<Rightarrow> Raise (missing_key ''x-ratelimit-reset'')
                         | Some v \<Rightarrow>
                             (case py_int v of
                                Inl e \<Rightarrow> Raise e
                              | Inr reset_time \<Rightarrow>
                                  Next [Sleep (max (real_of_int reset_time - time_time w attempt) 0)]))
                      else Next [])
               else Next []))"

text \<open>The two \<^verbatim>\<open>except\<close> clauses: a read timeout goes to the next turn at once, a
  connection error after the fixed delay; any other exception leaves the function.\<close>

definition user_except :: "int option step \<Rightarrow> int option step" where
  "user_except s =
     (case s of
        Raise e \<Rightarrow>
          if class_of e = ReadTimeout then Next []
          else if class_of e = ConnectionError then Next [Sleep RETRY_DELAY]
          else Raise e
      | _ \<Rightarrow> s)"

text \<open>The \<^verbatim>\<open>for attempt in range(MAX_RETRIES)\<close> loop and the \<^verbatim>\<open>return None\<close> after it.
  The request of a turn is recorded when the token is there to send it.\<close>

definition sent :: "'row world \<Rightarrow> nat \<Rightarrow> event list" where
  "sent w attempt = (if GH_TOKEN w = None then [] else [Get attempt])"

function get_user_id_loop ::
  "'row world \<Rightarrow> string \<Rightarrow> nat \<Rightarrow> event list \<Rightarrow> (exn + int option) \<times> event list" where
  "get_user_id_loop w username attempt tr =
     (if attempt < MAX_RETRIES then
        (case user_except (user_try w username attempt) of
           Return user_id \<Rightarrow> (Inr user_id, tr @ sent w attempt)
         | Raise e \<Rightarrow> (Inl e, tr @ sent w attempt)
         | Next evs \<Rightarrow> get_user_id_loop w username (Suc attempt) (tr @ sent w attempt @ evs))
      else (Inr None, tr))"
  by pat_completeness auto
termination
  by (relation "measure (\<lambda>(w, username, attempt, tr). MAX_RETRIES - attempt)") auto

declare get_user_id_loop.simps [simp del]

definition get_user_id :: "'row world \<Rightarrow> string \<Rightarrow> (exn + int option) \<times> event list" where
  "get_user_id w username = get_user_id_loop w username 0 []"

subsection \<open>\<^verbatim>\<open>get_open_issues\<close>\<close>

definition issues_try :: "'row world \<Rightarrow> nat \<Rightarrow> issue list step" where
  "issues_try w attempt =
     (case issues_api w attempt of
        Raises e \<Rightarrow> Raise e
      | Returns r \<Rightarrow>
          if status_code r = 200 then
            (case json r of Inl e \<Rightarrow> Raise e | Inr issues \<Rightarrow> Return issues)
          else if status_code r = 404 then Return []
          else if status_code r = 403
                  \<and> header_get (headers r) ''X-RateLimit-Remaining'' \<noteq> None then
            (case py_int (the (header_get (headers r) ''X-RateLimit-Remaining'')) of
               Inl e \<Rightarrow> Raise e
             | Inr remaining \<Rightarrow>
                 if remaining = 0 then
                   (case header_get (headers r) ''X-RateLimit-Reset'' of
                      None \<Rightarrow> Raise (missing_key ''x-ratelimit-reset'')
                    | Some v \<Rightarrow>
                        (case py_int v of
                           Inl e \<Rightarrow> Raise e
                         | Inr reset_time \<Rightarrow>
                             (let current_time = time_time w attempt in
                              if real_of_int reset_time > current_time
                              then Next [Sleep (real_of_int reset_time - current_time)]
                              else Next [])))
                 else Next [])
          else Next [])"

definition fetch_failure :: exn where
  "fetch_failure =
     Exn RuntimeError (''Failed to fetch issues after '' @ show_nat MAX_RETRIES @ '' attempts'')"

text \<open>The \<^verbatim>\<open>except (requests.RequestException, KeyError)\<close> clause: before the last
  attempt it sleeps and goes on, at the last attempt it raises \<^verbatim>\<open>RuntimeError\<close>.\<close>

definition issues_except :: "nat \<Rightarrow> issue list step \<Rightarrow> issue list step" where
  "issues_except attempt s =
     (case s of
        Raise e \<Rightarrow>
          if is_RequestException e \<or> class_of e = KeyError then
            (if attempt < MAX_RETRIES - 1 then Next [Sleep RETRY_DELAY] else Raise fetch_failure)
          else Raise e
      | _ \<Rightarrow> s)"

function get_open_issues_loop ::
  "'row world \<Rightarrow> nat \<Rightarrow> event list \<Rightarrow> (exn + issue list) \<times> event list" where
  "get_open_issues_loop w attempt tr =
     (if attempt < MAX_RETRIES then
        (case issues_except attempt (issues_try w attempt) of
           Return issues \<Rightarrow> (Inr issues, tr @ [Get attempt])
         | Raise e \<Rightarrow> (Inl e, tr @ [Get attempt])
         | Next evs \<Rightarrow> get_open_issues_loop w (Suc attempt) (tr @ [Get attempt] @ evs))
      else (Inr [], tr))"
  by pat_completeness auto
termination
  by (relation "measure (\<lambda>(w, attempt, tr). MAX_RETRIES - attempt)") auto

declare get_open_issues_loop.simps [simp del]

text \<open>The headers are built before the loop: a missing token is a \<^verbatim>\<open>KeyError\<close> that
  no clause catches.\<close>

definition get_open_issues :: "'row world \<Rightarrow> (exn + issue list) \<times> event list" where
  "get_open_issues w =
     (case GH_TOKEN w of
        None \<Rightarrow> (Inl (missing_key ''GH_TOKEN''), [])
      | Some token \<Rightarrow> get_open_issues_loop w 0 [])"

section \<open>Answering an issue\<close>

definition label_of :: "bool \<Rightarrow> bool \<Rightarrow> string" where
  "label_of is_valid is_authorized =
     (if \<not> is_authorized then ''rejected''
      else if \<not> is_valid then ''invalid''
      else ''to be processed'')"

text \<open>
  \<^verbatim>\<open>answer\<close>: the label, then the comment, then the closing. The result is the exception
  that leaves the function, if any, and the calls that were completed before it. Both
  \<^verbatim>\<open>except\<close> clauses raise again what they caught, so every exception of a call leaves
  the function.
\<close>

definition answer ::
  "'row world \<Rightarrow> bool \<Rightarrow> string \<Rightarrow> string \<Rightarrow> bool \<Rightarrow> exn option \<times> api_call list" where
  "answer w is_valid message number is_authorized =
     (let label = label_of is_valid is_authorized in
      case GH_TOKEN w of
        None \<Rightarrow> (Some (missing_key ''GH_TOKEN''), [])
      | Some token \<Rightarrow>
          (case tracker_api w (AddLabel number label) of
             Some e \<Rightarrow> (Some e, [])
           | None \<Rightarrow>
               (case tracker_api w (AddComment number message) of
                  Some e \<Rightarrow> (Some e, [AddLabel number label])
                | None \<Rightarrow>
                    (case tracker_api w (CloseIssue number) of
                       Some e \<Rightarrow> (Some e, [AddLabel number label, AddComment number message])
                     | None \<Rightarrow>
                         (None, [AddLabel number label, AddComment number message,
                                 CloseIssue number])))))"

section \<open>The allow-list\<close>

text \<open>The lines of a text file as iterating over it gives them: each of \<^verbatim>\<open>\n\<close>,
  \<^verbatim>\<open>\r\n\<close> and \<^verbatim>\<open>\r\<close> ends a line and is read as \<^verbatim>\<open>\n\<close>.\<close>

fun file_lines :: "string \<Rightarrow> string \<Rightarrow> string list" where
  "file_lines cur [] = (if cur = [] then [] else [cur])"
| "file_lines cur [c] =
     (if c = CHR 0x0D \<or> c = CHR 0x0A then [cur @ [CHR 0x0A]] else [cur @ [c]])"
| "file_lines cur (c # d # s) =
     (if c = CHR 0x0D \<and> d = CHR 0x0A then (cur @ [CHR 0x0A]) # file_lines [] s
      else if c = CHR 0x0D \<or> c = CHR 0x0A then (cur @ [CHR 0x0A]) # file_lines [] (d # s)
      else file_lines (cur @ [c]) (d # s))"

text \<open>\<^verbatim>\<open>is_in_safe_list\<close>: a missing file is \<^verbatim>\<open>FileNotFoundError\<close>, caught. A
  file that is there is taken to be readable text.\<close>

definition is_in_safe_list :: "'row world \<Rightarrow> int option \<Rightarrow> bool" where
  "is_in_safe_list w user_id =
     (case safe_list_file w of
        None \<Rightarrow> False
      | Some content \<Rightarrow> py_str user_id \<in> set (map strip (file_lines [] content)))"

section \<open>The data to store\<close>

definition process_failure :: "exn \<Rightarrow> exn" where
  "process_failure e = Exn ValueError (''Failed to process issue data: '' @ str_of e)"

text \<open>
  \<^verbatim>\<open>get_data_to_store\<close>. The body must split into exactly two sections: the
  assignment to two names raises \<^verbatim>\<open>ValueError\<close> otherwise. Every exception of the body
  is raised again as a \<^verbatim>\<open>ValueError\<close>.
\<close>

definition get_data_to_store ::
  "'row world \<Rightarrow> string \<Rightarrow> string option \<Rightarrow> string \<Rightarrow> string \<Rightarrow> int option
     \<Rightarrow> exn + 'row payload" where
  "get_data_to_store w title body created_at had_primary_source user_id =
     (case body of
        None \<Rightarrow> Inl (process_failure no_split)
      | Some text \<Rightarrow>
     (case map strip (split SEPARATOR text) of
        [metadata_csv, citations_csv] \<Rightarrow>
          (case csv_DictReader w metadata_csv of
             Inl e \<Rightarrow> Inl (process_failure e)
           | Inr metadata \<Rightarrow>
               (case csv_DictReader w citations_csv of
                  Inl e \<Rightarrow> Inl (process_failure e)
                | Inr citations \<Rightarrow>
                    if metadata = [] \<or> citations = [] then
                      Inl (process_failure (Exn ValueError ''Empty metadata or citations section''))
                    else
                      Inr \<lparr>data_title = title, data_metadata = metadata,
                           data_citations = citations, generatedAtTime = created_at,
                           wasAttributedTo = user_id,
                           hadPrimarySource = had_primary_source\<rparr>))
      | [only] \<Rightarrow>
          Inl (process_failure (Exn ValueError ''not enough values to unpack (expected 2, got 1)''))
      | _ \<Rightarrow> Inl (process_failure (Exn ValueError ''too many values to unpack (expected 2)''))))"

section \<open>The run over the open issues\<close>

text \<open>The state of a run: the payloads accumulated and the calls made on the tracker.\<close>

record 'row run =
  data_to_store :: "'row payload list"
  calls :: "api_call list"

definition unauthorized_message :: string where
  "unauthorized_message = ''To make a deposit, please contact OpenCitations at <contact@opencitations.net> to register as a trusted user''"

text \<open>One turn of the loop of \<^verbatim>\<open>process_open_issues\<close>. \<open>Some e\<close> in the result is an
  exception that leaves the loop.\<close>

definition process_issue :: "'row world \<Rightarrow> issue \<Rightarrow> 'row run \<Rightarrow> exn option \<times> 'row run" where
  "process_issue w i st =
     (case fst (get_user_id w (author_login i)) of
        Inl e \<Rightarrow> (Some e, st)
      | Inr user_id \<Rightarrow>
          if \<not> is_in_safe_list w user_id then
            (case answer w False unauthorized_message (issue_number i) False of
               (r, cs) \<Rightarrow> (r, st\<lparr>calls := calls st @ cs\<rparr>))
          else
            (case validate w (issue_title i) (issue_body i) of
               Inl e \<Rightarrow> (Some e, st)
             | Inr (is_valid, message) \<Rightarrow>
                 (case answer w is_valid message (issue_number i) True of
                    (Some e, cs) \<Rightarrow> (Some e, st\<lparr>calls := calls st @ cs\<rparr>)
                  | (None, cs) \<Rightarrow>
                      if is_valid then
                        (case get_data_to_store w (issue_title i) (issue_body i) (createdAt i)
                                (issue_url i) user_id of
                           Inr issue_data \<Rightarrow>
                             (None, st\<lparr>data_to_store := data_to_store st @ [issue_data],
                                       calls := calls st @ cs\<rparr>)
                         | Inl e \<Rightarrow> (None, st\<lparr>calls := calls st @ cs\<rparr>))
                      else (None, st\<lparr>calls := calls st @ cs\<rparr>))))"

fun process_issues :: "'row world \<Rightarrow> issue list \<Rightarrow> 'row run \<Rightarrow> exn option \<times> 'row run" where
  "process_issues w [] st = (None, st)"
| "process_issues w (i # rest) st =
     (case process_issue w i st of
        (Some e, st') \<Rightarrow> (Some e, st')
      | (None, st') \<Rightarrow> process_issues w rest st')"

text \<open>\<^verbatim>\<open>process_open_issues\<close>: every exception is logged and raised again.\<close>

definition process_open_issues :: "'row world \<Rightarrow> exn option \<times> 'row run" where
  "process_open_issues w =
     (case fst (get_open_issues w) of
        Inl e \<Rightarrow> (Some e, \<lparr>data_to_store = [], calls = []\<rparr>)
      | Inr issues \<Rightarrow>
          (case process_issues w issues \<lparr>data_to_store = [], calls = []\<rparr> of
             (Some e, st) \<Rightarrow> (Some e, st)
           | (None, st) \<Rightarrow>
               if data_to_store st \<noteq> [] then (zenodo_deposit w (data_to_store st), st)
               else (None, st)))"

section \<open>The archive index\<close>

text \<open>
  The index file of \<^verbatim>\<open>ArchiveManager\<close>. A JSON object is an association list in the
  order of insertion: assigning to a key that is there keeps its place, a new key goes
  to the end (\<^const>\<open>AList.update\<close>), and the keys of an object are distinct.
\<close>

record zenodo_entry =
  entry_url :: string
  entry_doi :: string

record index_data =
  github_reports :: "(string \<times> string) list"
  zenodo_reports :: "(string \<times> zenodo_entry) list"
  last_archive :: "string option"

text \<open>\<^verbatim>\<open>_init_index\<close> writes this value.\<close>

definition init_index :: index_data where
  "init_index = \<lparr>github_reports = [], zenodo_reports = [], last_archive = None\<rparr>"

text \<open>The state of the index file is \<open>None\<close> when the file does not exist.
  \<^verbatim>\<open>_load_index\<close> opens it for reading.\<close>

definition load_index :: "index_data option \<Rightarrow> exn + index_data" where
  "load_index file =
     (case file of
        None \<Rightarrow> Inl (Exn FileNotFoundError ''No such file or directory'')
      | Some index \<Rightarrow> Inr index)"

text \<open>\<^verbatim>\<open>add_report\<close>: the index is created when it is missing, then read, changed and
  written. The result is the index file after the call.\<close>

definition add_report :: "string \<Rightarrow> string \<Rightarrow> index_data option \<Rightarrow> index_data option" where
  "add_report report_filename github_url file =
     (let index = (case file of None \<Rightarrow> init_index | Some index \<Rightarrow> index) in
      Some (index\<lparr>github_reports :=
                    AList.update report_filename github_url (github_reports index)\<rparr>))"

text \<open>
  What \<^verbatim>\<open>archive_reports\<close> gets from outside:
  \<^item> \<open>getctime f\<close>: the creation time of the report \<open>f\<close> in the reports directory
    (a float, taken as the real number it stands for), \<open>None\<close> when the file does not
    exist;
  \<^item> \<open>zenodo_base_url\<close>: \<^verbatim>\<open>get_zenodo_base_url()\<close>;
  \<^item> \<open>create_deposition_resource\<close>: the deposition identifier and the bucket URL, or
    the exception raised;
  \<^item> \<open>put_report f\<close>: \<open>Some e\<close> when the upload of \<open>f\<close> raises \<open>e\<close>
    (\<^verbatim>\<open>raise_for_status\<close> included);
  \<^item> \<open>publish\<close>: the DOI read from the response to the publication, or the exception;
  \<^item> \<open>os_remove f\<close>: \<open>Some e\<close> when deleting \<open>f\<close> raises \<open>e\<close>;
  \<^item> \<open>now_isoformat\<close>: \<^verbatim>\<open>datetime.now().isoformat()\<close> at the end of the run.
\<close>

record zenodo =
  getctime :: "string \<Rightarrow> real option"
  zenodo_base_url :: "exn + string"
  create_deposition_resource :: "exn + string \<times> string"
  put_report :: "string \<Rightarrow> exn option"
  publish :: "exn + string"
  os_remove :: "string \<Rightarrow> exn option"
  now_isoformat :: string

text \<open>The key of the sort: the creation time, \<open>0\<close> for a file that does not exist.\<close>

definition ctime_key :: "zenodo \<Rightarrow> string \<Rightarrow> real" where
  "ctime_key z x = (case getctime z x of Some t \<Rightarrow> t | None \<Rightarrow> 0)"

text \<open>The upload loop. \<^verbatim>\<open>open\<close> raises for a report that has no file.\<close>

fun upload_reports :: "zenodo \<Rightarrow> string list \<Rightarrow> exn option" where
  "upload_reports z [] = None"
| "upload_reports z (report # rest) =
     (case getctime z report of
        None \<Rightarrow> Some (Exn FileNotFoundError ''No such file or directory'')
      | Some t \<Rightarrow>
          (case put_report z report of
             Some e \<Rightarrow> Some e
           | None \<Rightarrow> upload_reports z rest))"

definition record_url :: "string \<Rightarrow> string \<Rightarrow> string \<Rightarrow> string" where
  "record_url files_base_url deposition_id report =
     files_base_url @ ''/records/'' @ deposition_id @ ''/files/'' @ report @ ''/content''"

text \<open>The loop that updates the index in memory and deletes the files. \<open>removed\<close> lists
  the files deleted so far. \<^verbatim>\<open>pop\<close> raises \<^verbatim>\<open>KeyError\<close> on a key that is not there.\<close>

fun update_index ::
  "zenodo \<Rightarrow> string \<Rightarrow> string \<Rightarrow> string \<Rightarrow> string list \<Rightarrow> index_data \<Rightarrow> string list
     \<Rightarrow> (exn + index_data) \<times> string list" where
  "update_index z base dep doi [] index removed = (Inr index, removed)"
| "update_index z base dep doi (report # rest) index removed =
     (case map_of (github_reports index) report of
        None \<Rightarrow> (Inl (missing_key report), removed)
      | Some github_url \<Rightarrow>
          (let index' = index\<lparr>
                 github_reports := AList.delete report (github_reports index),
                 zenodo_reports :=
                   AList.update report
                     \<lparr>entry_url = record_url base dep report,
                      entry_doi = ''https://doi.org/'' @ doi\<rparr>
                     (zenodo_reports index)\<rparr>
           in case os_remove z report of
                Some e \<Rightarrow> (Inl e, removed)
              | None \<Rightarrow> update_index z base dep doi rest index' (removed @ [report])))"

text \<open>
  The body of the \<^verbatim>\<open>try\<close> of \<^verbatim>\<open>archive_reports\<close>, for a list of reports that is not
  empty. The title of the deposit needs the earliest date of a report file:
  \<^verbatim>\<open>min\<close> raises \<^verbatim>\<open>ValueError\<close> when no report has a file. The text of the title and of
  the description goes to the deposit service only and is left out. The result is the
  DOI and the index to save, or the exception, and the files deleted.
\<close>

definition archive_try ::
  "zenodo \<Rightarrow> index_data \<Rightarrow> string list \<Rightarrow> (exn + string \<times> index_data) \<times> string list" where
  "archive_try z index reports_to_archive =
     (case zenodo_base_url z of
        Inl e \<Rightarrow> (Inl e, [])
      | Inr base_url \<Rightarrow>
          if list_all (\<lambda>x. getctime z x = None) reports_to_archive then
            (Inl (Exn ValueError ''min() arg is an empty sequence''), [])
          else
            (case create_deposition_resource z of
               Inl e \<Rightarrow> (Inl e, [])
             | Inr (deposition_id, bucket_url) \<Rightarrow>
                 (case upload_reports z reports_to_archive of
                    Some e \<Rightarrow> (Inl e, [])
                  | None \<Rightarrow>
                      (case publish z of
                         Inl e \<Rightarrow> (Inl e, [])
                       | Inr doi \<Rightarrow>
                           (case update_index z base_url deposition_id doi
                                   reports_to_archive index [] of
                              (Inl e, removed) \<Rightarrow> (Inl e, removed)
                            | (Inr index', removed) \<Rightarrow>
                                (Inr (doi, index'\<lparr>last_archive := Some (now_isoformat z)\<rparr>),
                                 removed))))))"

text \<open>
  \<^verbatim>\<open>archive_reports\<close>: what it returns or raises, the index file after the call, and
  the report files it deleted. The index is saved at the end of the \<^verbatim>\<open>try\<close> only:
  an exception leaves the file as it was.
\<close>

definition archive_reports ::
  "zenodo \<Rightarrow> index_data option \<Rightarrow> (exn + string option) \<times> index_data option \<times> string list" where
  "archive_reports z file =
     (case load_index file of
        Inl e \<Rightarrow> (Inl e, file, [])
      | Inr index \<Rightarrow>
          (let reports_to_archive = sort_key (ctime_key z) (map fst (github_reports index)) in
           if reports_to_archive = [] then (Inr None, file, [])
           else
             (case archive_try z index reports_to_archive of
                (Inl e, removed) \<Rightarrow> (Inl e, file, removed)
              | (Inr (doi, index'), removed) \<Rightarrow> (Inr (Some doi), Some index', removed))))"

text \<open>\<^verbatim>\<open>get_report_url\<close>.\<close>

definition get_report_url :: "string \<Rightarrow> index_data option \<Rightarrow> exn + string option" where
  "get_report_url report_filename file =
     (case load_index file of
        Inl e \<Rightarrow> Inl e
      | Inr index \<Rightarrow>
          (case map_of (github_reports index) report_filename of
             Some url \<Rightarrow> Inr (Some url)
           | None \<Rightarrow>
               (case map_of (zenodo_reports index) report_filename of
                  Some zenodo_data \<Rightarrow> Inr (Some (entry_url zenodo_data))
                | None \<Rightarrow> Inr None)))"

text \<open>\<^verbatim>\<open>needs_archival\<close>, with the threshold \<^verbatim>\<open>max_reports_before_archive\<close> of the
  configuration.\<close>

definition needs_archival :: "int \<Rightarrow> index_data option \<Rightarrow> exn + bool" where
  "needs_archival max_reports_before_archive file =
     (case load_index file of
        Inl e \<Rightarrow> Inl e
      | Inr index \<Rightarrow> Inr (int (length (github_reports index)) \<ge> max_reports_before_archive))"

text \<open>The filenames in hot and in cold storage, and the invariant of the data model.\<close>

definition hot :: "index_data \<Rightarrow> string set" where
  "hot index = fst ` set (github_reports index)"

definition cold :: "index_data \<Rightarrow> string set" where
  "cold index = fst ` set (zenodo_reports index)"

definition disjoint :: "index_data \<Rightarrow> bool" where
  "disjoint index = (hot index \<inter> cold index = {})"

section \<open>Notions used in the statements\<close>

text \<open>A response that reports an exhausted rate limit: status 403, a remaining quota
  that reads \<open>0\<close> and a reset time that reads \<open>reset_time\<close>.\<close>

definition rate_limited :: "'a response \<Rightarrow> int \<Rightarrow> bool" where
  "rate_limited r reset_time =
     (status_code r = 403
      \<and> (case header_get (headers r) ''X-RateLimit-Remaining'' of
            None \<Rightarrow> False | Some v \<Rightarrow> py_int v = Inr 0)
      \<and> (case header_get (headers r) ''X-RateLimit-Reset'' of
            None \<Rightarrow> False | Some v \<Rightarrow> py_int v = Inr reset_time))"

text \<open>The failures of the connection that \<^verbatim>\<open>get_user_id\<close> retries.\<close>

definition connection_failure :: "exn \<Rightarrow> bool" where
  "connection_failure e = (class_of e = ConnectionError \<or> class_of e = ReadTimeout)"

text \<open>The verdict of the external validator on two sections: it raised nothing and its
  summaries hold no error.\<close>

definition validator_accepts :: "'row world \<Rightarrow> string \<Rightarrow> string \<Rightarrow> bool" where
  "validator_accepts w metadata_csv citations_csv =
     (case closure_validator w metadata_csv citations_csv of
        Inl e \<Rightarrow> False
      | Inr (meta_summary, cits_summary) \<Rightarrow> error_messages meta_summary cits_summary = [])"

section \<open>Example worlds\<close>

text \<open>
  A reader for plain tables, to run the program on examples: the first line holds the
  field names, every later line that is not empty is a row, the fields are cut at the
  commas. It is what \<^verbatim>\<open>csv.DictReader\<close> gives on text without quotes and carriage
  returns whose rows have as many fields as the header.
\<close>

definition plain_reader :: "string \<Rightarrow> exn + (string \<times> string) list list" where
  "plain_reader text =
     (case split [newline] text of
        [] \<Rightarrow> Inr []
      | header # rows \<Rightarrow>
          Inr (map (\<lambda>row. zip (split '','' header) (split '','' row))
                 (filter (\<lambda>row. row \<noteq> []) rows)))"

definition found_user :: "int option response" where
  "found_user = \<lparr>status_code = 200, headers = [], json = Inr (Some 12345)\<rparr>"

definition no_issues :: "issue list response" where
  "no_issues = \<lparr>status_code = 200, headers = [], json = Inr []\<rparr>"

text \<open>A world where everything goes well: every user is found with the identity 12345,
  which is on the allow-list, every identifier is valid, the validator writes two empty
  summaries, and no call fails.\<close>

definition demo_world :: "(string \<times> string) list world" where
  "demo_world =
     \<lparr>GH_TOKEN = Some ''token'',
      users_api = (\<lambda>username attempt. Returns found_user),
      issues_api = (\<lambda>attempt. Returns no_issues),
      time_time = (\<lambda>attempt. 1000000),
      tracker_api = (\<lambda>c. None),
      safe_list_file = Some ''42\<newline> 12345 \<newline>'',
      id_is_valid = (\<lambda>schema use_api identifier. Inr True),
      closure_validator = (\<lambda>meta cits. Inr (Some [], Some [])),
      csv_DictReader = plain_reader,
      zenodo_deposit = (\<lambda>data. None)\<rparr>"

definition doi_title :: string where
  "doi_title = ''deposit journal.com doi:10.1007/x''"

text \<open>Worlds where the tracker limits the rate, cannot be reached, or fails on one kind
  of call.\<close>

definition limited_user :: "int option response" where
  "limited_user = \<lparr>status_code = 403,
      headers = [(''X-RateLimit-Remaining'', ''0''), (''X-RateLimit-Reset'', ''1000030'')],
      json = Inr None\<rparr>"

definition limited_issues :: "issue list response" where
  "limited_issues = \<lparr>status_code = 403,
      headers = [(''X-RateLimit-Remaining'', ''0''), (''X-RateLimit-Reset'', ''1000030'')],
      json = Inr []\<rparr>"

definition expired_issues :: "issue list response" where
  "expired_issues = \<lparr>status_code = 403,
      headers = [(''X-RateLimit-Remaining'', ''0''), (''X-RateLimit-Reset'', ''999970'')],
      json = Inr []\<rparr>"

definition expired_user :: "int option response" where
  "expired_user = \<lparr>status_code = 403,
      headers = [(''X-RateLimit-Remaining'', ''0''), (''X-RateLimit-Reset'', ''999970'')],
      json = Inr None\<rparr>"

definition limited_world :: "(string \<times> string) list world" where
  "limited_world = demo_world
     \<lparr>users_api := (\<lambda>username attempt. if attempt < 3 then Returns limited_user else Returns found_user),
      issues_api := (\<lambda>attempt. if attempt < 3 then Returns limited_issues else Returns no_issues)\<rparr>"

definition unreachable :: exn where
  "unreachable = Exn ConnectionError ''unreachable''"

definition mixed_world :: "(string \<times> string) list world" where
  "mixed_world = demo_world
     \<lparr>users_api := (\<lambda>username attempt.
         if attempt < 2 then Raises unreachable
         else if attempt = 2 then Returns limited_user
         else Returns found_user)\<rparr>"

definition expired_world :: "(string \<times> string) list world" where
  "expired_world = demo_world
     \<lparr>users_api := (\<lambda>username attempt. if attempt < 1 then Returns expired_user else Returns found_user),
      issues_api := (\<lambda>attempt. if attempt < 1 then Returns expired_issues else Returns no_issues)\<rparr>"

definition offline_world :: "(string \<times> string) list world" where
  "offline_world = demo_world
     \<lparr>users_api := (\<lambda>username attempt. Raises unreachable),
      issues_api := (\<lambda>attempt. Raises unreachable)\<rparr>"

definition failing_tracker :: "(api_call \<Rightarrow> bool) \<Rightarrow> (string \<times> string) list world" where
  "failing_tracker fails = demo_world
     \<lparr>tracker_api := (\<lambda>c. if fails c then Some unreachable else None)\<rparr>"

fun is_label :: "api_call \<Rightarrow> bool" where
  "is_label (AddLabel n l) = True" | "is_label c = False"
fun is_comment :: "api_call \<Rightarrow> bool" where
  "is_comment (AddComment n l) = True" | "is_comment c = False"
fun is_close :: "api_call \<Rightarrow> bool" where
  "is_close (CloseIssue n) = True" | "is_close c = False"

text \<open>Three issues of the user \<open>octocat\<close>, with their bodies: one with two tables of
  one row, one whose tables have a header and no row, one where the separator occurs
  twice.\<close>

definition good_text :: string where
  "good_text = ''id,title\<newline>1,Test\<newline>===###===@@@===\<newline>citing,cited\<newline>a,b''"

definition empty_text :: string where
  "empty_text = ''id,title\<newline>===###===@@@===\<newline>citing,cited''"

definition twice_text :: string where
  "twice_text = ''id,title\<newline>1,Test\<newline>===###===@@@===\<newline>citing,cited\<newline>a,b\<newline>===###===@@@===\<newline>more''"

definition good_issue :: issue where
  "good_issue =
     \<lparr>issue_title = doi_title,
      issue_body = Some good_text,
      issue_number = ''1'', author_login = ''octocat'',
      createdAt = ''2024-01-01T00:00:00Z'', issue_url = ''https://github.com/test/1''\<rparr>"

definition empty_issue :: issue where
  "empty_issue = good_issue
     \<lparr>issue_body := Some empty_text\<rparr>"

definition twice_issue :: issue where
  "twice_issue = good_issue
     \<lparr>issue_body := Some twice_text\<rparr>"

text \<open>An issue without a description, and a world where the tracker lists it before
  the first issue above.\<close>

definition null_issue :: issue where
  "null_issue = good_issue\<lparr>issue_body := None, issue_number := ''2''\<rparr>"

definition null_world :: "(string \<times> string) list world" where
  "null_world = demo_world
     \<lparr>issues_api := (\<lambda>attempt.
         Returns \<lparr>status_code = 200, headers = [], json = Inr [null_issue, good_issue]\<rparr>)\<rparr>"

definition no_list_world :: "(string \<times> string) list world" where
  "no_list_world = demo_world\<lparr>safe_list_file := None\<rparr>"

definition start :: "(string \<times> string) list run" where
  "start = \<lparr>data_to_store = [], calls = []\<rparr>"


text \<open>A deposit service where every step succeeds, two report files among which the
  second is the older, and the indexes met when one report, or two, are registered
  and archived.\<close>

definition demo_zenodo :: zenodo where
  "demo_zenodo =
     \<lparr>getctime = (\<lambda>f. if f = ''validation_issue_1.html'' then Some 1700000500
                      else if f = ''validation_issue_2.html'' then Some 1700000300
                      else None),
      zenodo_base_url = Inr ''https://zenodo.org/api'',
      create_deposition_resource = Inr (''77'', ''https://zenodo.org/api/files/bucket''),
      put_report = (\<lambda>f. None),
      publish = Inr ''10.5281/zenodo.77'',
      os_remove = (\<lambda>f. None),
      now_isoformat = ''2025-01-01T00:00:00''\<rparr>"

definition one_hot :: index_data where
  "one_hot = \<lparr>github_reports = [(''validation_issue_1.html'', ''https://pages/1'')],
              zenodo_reports = [], last_archive = None\<rparr>"

definition one_cold :: index_data where
  "one_cold =
     \<lparr>github_reports = [],
      zenodo_reports =
        [(''validation_issue_1.html'',
          \<lparr>entry_url = ''https://zenodo.org/api/records/77/files/validation_issue_1.html/content'',
           entry_doi = ''https://doi.org/10.5281/zenodo.77''\<rparr>)],
      last_archive = Some ''2025-01-01T00:00:00''\<rparr>"

definition hot_and_cold :: index_data where
  "hot_and_cold = one_cold
     \<lparr>github_reports := [(''validation_issue_1.html'', ''https://pages/1'')]\<rparr>"

definition two_hot :: index_data where
  "two_hot = \<lparr>github_reports = [(''validation_issue_1.html'', ''https://pages/1''),
                                 (''validation_issue_2.html'', ''https://pages/2'')],
              zenodo_reports = [], last_archive = None\<rparr>"

definition two_cold :: index_data where
  "two_cold =
     \<lparr>github_reports = [],
      zenodo_reports =
        [(''validation_issue_2.html'',
          \<lparr>entry_url = ''https://zenodo.org/api/records/77/files/validation_issue_2.html/content'',
           entry_doi = ''https://doi.org/10.5281/zenodo.77''\<rparr>),
         (''validation_issue_1.html'',
          \<lparr>entry_url = ''https://zenodo.org/api/records/77/files/validation_issue_1.html/content'',
           entry_doi = ''https://doi.org/10.5281/zenodo.77''\<rparr>)],
      last_archive = Some ''2025-01-01T00:00:00''\<rparr>"

section \<open>Facts about strings\<close>

lemma split_from_no_sep: "\<not> contains sep s \<Longrightarrow> split_from sep cur s = [cur @ s]"
  by (induction s arbitrary: cur) auto

lemma split_two_contains:
  assumes "split sep body = meta # cits # rest"
  shows "contains sep body"
proof (rule ccontr)
  assume "\<not> contains sep body"
  then have "split sep body = [body]"
    by (simp add: split_def split_from_no_sep)
  with assms show False by simp
qed

lemma split_from_not_empty: "split_from sep cur s \<noteq> []"
  by (induction s arbitrary: cur) auto

lemma contains_split_two:
  assumes "contains sep body" and "sep \<noteq> []"
  shows "\<exists>meta cits rest. split sep body = meta # cits # rest"
proof -
  have "\<exists>meta cits rest. split_from sep cur s = meta # cits # rest"
    if "contains sep s" for cur s
    using that
  proof (induction s arbitrary: cur)
    case Nil
    with assms(2) show ?case by simp
  next
    case (Cons c s)
    show ?case
    proof (cases "prefix sep (c # s)")
      case True
      obtain x xs where "split_from sep [] (drop (length sep - 1) s) = x # xs"
        using split_from_not_empty [of sep "[]" "drop (length sep - 1) s"]
        by (cases "split_from sep [] (drop (length sep - 1) s)") auto
      with True assms(2) show ?thesis by simp
    next
      case False
      with Cons.prems have "contains sep s" by simp
      from Cons.IH [OF this, of "cur @ [c]"] False show ?thesis by simp
    qed
  qed
  with assms(1) show ?thesis by (simp add: split_def)
qed

lemma lower_char_not_upper: "lower_char c \<notin> set upper_letters"
  by (simp add: lower_char_def upper_letters_def lower_letters_def)

lemma lower_issn: "lower ''issn'' = ''issn''"
  by (simp add: lower_def lower_char_def upper_letters_def lower_letters_def)

lemma lower_doi: "lower ''doi'' = ''doi''"
  by (simp add: lower_def lower_char_def upper_letters_def lower_letters_def)

lemma search_issn:
  "re_search ''deposit journal.com issn:1234-5678''
     = Some (''journal.com'', ''issn'', ''1234-5678'')"
  by code_simp

lemma search_doi: "re_search doi_title = Some (''journal.com'', ''doi'', ''10.1007/x'')"
  by code_simp

section \<open>Facts about the example worlds\<close>

lemma demo_world_fields:
  "GH_TOKEN demo_world = Some ''token''"
  "users_api demo_world username attempt = Returns found_user"
  "issues_api demo_world attempt = Returns no_issues"
  "time_time demo_world attempt = 1000000"
  "tracker_api demo_world c = None"
  "safe_list_file demo_world = Some ''42\<newline> 12345 \<newline>''"
  "id_is_valid demo_world schema use_api identifier = Inr True"
  "closure_validator demo_world meta cits = Inr (Some [], Some [])"
  "csv_DictReader demo_world = plain_reader"
  "zenodo_deposit demo_world data = None"
  by (simp_all add: demo_world_def)

lemma demo_title_valid: "validate_title demo_world doi_title = Inr (True, [])"
  by (simp add: validate_title_def search_doi lower_doi manager_map_def demo_world_fields)

section \<open>Titles with an unsupported schema\<close>

text \<open>
  C7. A title that matches the pattern and whose schema, in lower case, is not one of
  the supported eight is refused by \<^verbatim>\<open>validate\<close> with the message
  \<^verbatim>\<open>The identifier schema '<schema>' is not supported\<close>, whatever the body and the world;
  the schema named has no upper-case letter.
\<close>

theorem unsupported_schema:
  assumes "re_search title = Some (domain, g2, identifier)"
    and "lower g2 \<notin> set manager_map"
  shows "validate w title body =
           Inr (False, ''The identifier schema '' @ [CHR 0x27] @ lower g2 @ [CHR 0x27]
                         @ '' is not supported'')
         \<and> set (lower g2) \<inter> set upper_letters = {}"
proof -
  have "validate_title w title =
          Inr (False, ''The identifier schema '' @ [CHR 0x27] @ lower g2 @ [CHR 0x27]
                        @ '' is not supported'')"
    using assms by (simp add: validate_title_def)
  then have "validate w title body =
          Inr (False, ''The identifier schema '' @ [CHR 0x27] @ lower g2 @ [CHR 0x27]
                        @ '' is not supported'')"
    by (simp add: validate_def)
  moreover have "set (lower g2) \<inter> set upper_letters = {}"
    using lower_char_not_upper by (auto simp: lower_def)
  ultimately show ?thesis by simp
qed

theorem unsupported_schema_witness:
  "re_search ''deposit journal.com issn:1234-5678''
     = Some (''journal.com'', ''issn'', ''1234-5678'')
   \<and> lower ''issn'' \<notin> set manager_map
   \<and> validate demo_world ''deposit journal.com issn:1234-5678'' (Some ''any body'')
       = Inr (False, ''The identifier schema 'issn' is not supported'')"
proof -
  have a: "lower ''issn'' \<notin> set manager_map"
    by (simp add: lower_issn manager_map_def)
  have "validate demo_world ''deposit journal.com issn:1234-5678'' (Some ''any body'')
          = Inr (False, ''The identifier schema '' @ [CHR 0x27] @ lower ''issn'' @ [CHR 0x27]
                        @ '' is not supported'')"
    using unsupported_schema [OF search_issn a] by (rule conjunct1)
  then have c: "validate demo_world ''deposit journal.com issn:1234-5678'' (Some ''any body'')
          = Inr (False, ''The identifier schema 'issn' is not supported'')"
    by (simp add: lower_issn)
  show ?thesis by (rule conjI [OF search_issn conjI [OF a c]])
qed

section \<open>Retried calls\<close>

lemma user_loop_end: "get_user_id_loop w u MAX_RETRIES tr = (Inr None, tr)"
  by (subst get_user_id_loop.simps) simp

lemma issues_loop_end: "get_open_issues_loop w MAX_RETRIES tr = (Inr [], tr)"
  by (subst get_open_issues_loop.simps) simp

lemma user_loop_next:
  assumes "k < MAX_RETRIES" and "user_except (user_try w u k) = Next evs"
  shows "get_user_id_loop w u k tr = get_user_id_loop w u (Suc k) (tr @ sent w k @ evs)"
  using assms by (subst get_user_id_loop.simps) simp

lemma issues_loop_next:
  assumes "k < MAX_RETRIES" and "issues_except k (issues_try w k) = Next evs"
  shows "get_open_issues_loop w k tr = get_open_issues_loop w (Suc k) (tr @ [Get k] @ evs)"
  using assms by (subst get_open_issues_loop.simps) simp

lemma issues_loop_raise:
  assumes "k < MAX_RETRIES" and "issues_except k (issues_try w k) = Raise e"
  shows "get_open_issues_loop w k tr = (Inl e, tr @ [Get k])"
  using assms by (subst get_open_issues_loop.simps) simp

lemma user_try_rate_limited:
  assumes "GH_TOKEN w = Some token" and "users_api w u k = Returns r"
    and "rate_limited r reset_time"
  shows "user_try w u k = Next [Sleep (max (real_of_int reset_time - time_time w k) 0)]"
  using assms by (auto simp: user_try_def rate_limited_def split: option.splits)

lemma issues_try_rate_limited:
  assumes "issues_api w k = Returns r" and "rate_limited r reset_time"
  shows "issues_try w k =
           Next (if real_of_int reset_time > time_time w k
                 then [Sleep (real_of_int reset_time - time_time w k)] else [])"
  using assms by (auto simp: issues_try_def rate_limited_def Let_def split: option.splits)

lemma user_try_failure:
  assumes "GH_TOKEN w = Some token" and "users_api w u k = Raises e"
    and "connection_failure e"
  shows "user_except (user_try w u k) =
           Next (if class_of e = ReadTimeout then [] else [Sleep RETRY_DELAY])"
  using assms by (auto simp: user_try_def user_except_def connection_failure_def)

lemma user_loop_exhausted:
  assumes "\<forall>j. k \<le> j \<and> j < MAX_RETRIES \<longrightarrow> (\<exists>evs. user_except (user_try w u j) = Next evs)"
  shows "fst (get_user_id_loop w u k tr) = Inr None"
  using assms
proof (induction "MAX_RETRIES - k" arbitrary: k tr)
  case 0
  then have "\<not> k < MAX_RETRIES" by simp
  then show ?case by (subst get_user_id_loop.simps) simp
next
  case (Suc n)
  then have lt: "k < MAX_RETRIES" by simp
  with Suc.prems obtain evs where "user_except (user_try w u k) = Next evs" by blast
  then have "get_user_id_loop w u k tr = get_user_id_loop w u (Suc k) (tr @ sent w k @ evs)"
    by (rule user_loop_next [OF lt])
  moreover have "fst (get_user_id_loop w u (Suc k) (tr @ sent w k @ evs)) = Inr None"
    using Suc.hyps(2) Suc.prems by (intro Suc.hyps(1)) auto
  ultimately show ?case by simp
qed

lemma issues_loop_exhausted:
  assumes "\<forall>j. k \<le> j \<and> j < MAX_RETRIES \<longrightarrow> (\<exists>evs. issues_except j (issues_try w j) = Next evs)"
  shows "fst (get_open_issues_loop w k tr) = Inr []"
  using assms
proof (induction "MAX_RETRIES - k" arbitrary: k tr)
  case 0
  then have "\<not> k < MAX_RETRIES" by simp
  then show ?case by (subst get_open_issues_loop.simps) simp
next
  case (Suc n)
  then have lt: "k < MAX_RETRIES" by simp
  with Suc.prems obtain evs where "issues_except k (issues_try w k) = Next evs" by blast
  then have "get_open_issues_loop w k tr = get_open_issues_loop w (Suc k) (tr @ [Get k] @ evs)"
    by (rule issues_loop_next [OF lt])
  moreover have "fst (get_open_issues_loop w (Suc k) (tr @ [Get k] @ evs)) = Inr []"
    using Suc.hyps(2) Suc.prems by (intro Suc.hyps(1)) auto
  ultimately show ?case by simp
qed

lemma issues_except_failure:
  assumes "issues_api w k = Raises e" and "is_RequestException e"
  shows "issues_except k (issues_try w k) =
           (if k < MAX_RETRIES - 1 then Next [Sleep RETRY_DELAY] else Raise fetch_failure)"
  using assms by (simp add: issues_try_def issues_except_def)

lemma issues_loop_failures:
  assumes "\<forall>j. k \<le> j \<and> j < MAX_RETRIES \<longrightarrow> (\<exists>e. issues_api w j = Raises e \<and> is_RequestException e)"
    and "k < MAX_RETRIES"
  shows "fst (get_open_issues_loop w k tr) = Inl fetch_failure"
  using assms
proof (induction "MAX_RETRIES - k" arbitrary: k tr)
  case 0
  then show ?case by simp
next
  case (Suc n)
  from Suc.prems obtain e where e: "issues_api w k = Raises e" "is_RequestException e"
    by blast
  show ?case
  proof (cases "k < MAX_RETRIES - 1")
    case True
    then have "issues_except k (issues_try w k) = Next [Sleep RETRY_DELAY]"
      using issues_except_failure [OF e] by simp
    then have "get_open_issues_loop w k tr
                 = get_open_issues_loop w (Suc k) (tr @ [Get k] @ [Sleep RETRY_DELAY])"
      by (rule issues_loop_next [OF Suc.prems(2)])
    moreover have "fst (get_open_issues_loop w (Suc k) (tr @ [Get k] @ [Sleep RETRY_DELAY]))
                     = Inl fetch_failure"
      using Suc.hyps(2) Suc.prems True by (intro Suc.hyps(1)) auto
    ultimately show ?thesis by simp
  next
    case False
    then have "issues_except k (issues_try w k) = Raise fetch_failure"
      using issues_except_failure [OF e] by simp
    then show ?thesis
      by (simp add: issues_loop_raise [OF Suc.prems(2)])
  qed
qed

lemma lower_header_names:
  "lower ''X-RateLimit-Remaining'' = ''x-ratelimit-remaining''"
  "lower ''X-RateLimit-Reset'' = ''x-ratelimit-reset''"
  by (simp_all add: lower_def lower_char_def upper_letters_def lower_letters_def)

lemma py_int_examples:
  "py_int ''0'' = Inr 0" "py_int ''1000030'' = Inr 1000030" "py_int ''999970'' = Inr 999970"
  by (simp_all add: py_int_def literal_strip_def is_literal_space_def digit_value_def
      digit_chars_def)

lemma rate_limited_examples:
  "rate_limited limited_user 1000030" "rate_limited limited_issues 1000030"
  "rate_limited expired_user 999970" "rate_limited expired_issues 999970"
  by (simp_all add: rate_limited_def limited_user_def limited_issues_def expired_user_def
      expired_issues_def header_get_def lower_header_names py_int_examples)

lemma limited_world_fields:
  "GH_TOKEN limited_world = Some ''token''"
  "users_api limited_world username attempt
     = (if attempt < 3 then Returns limited_user else Returns found_user)"
  "issues_api limited_world attempt
     = (if attempt < 3 then Returns limited_issues else Returns no_issues)"
  "time_time limited_world attempt = 1000000"
  by (simp_all add: limited_world_def demo_world_def)

lemma mixed_world_fields:
  "GH_TOKEN mixed_world = Some ''token''"
  "users_api mixed_world username attempt
     = (if attempt < 2 then Raises unreachable
        else if attempt = 2 then Returns limited_user else Returns found_user)"
  "time_time mixed_world attempt = 1000000"
  by (simp_all add: mixed_world_def demo_world_def)

lemma expired_world_fields:
  "GH_TOKEN expired_world = Some ''token''"
  "users_api expired_world username attempt
     = (if attempt < 1 then Returns expired_user else Returns found_user)"
  "issues_api expired_world attempt
     = (if attempt < 1 then Returns expired_issues else Returns no_issues)"
  "time_time expired_world attempt = 1000000"
  by (simp_all add: expired_world_def demo_world_def)

lemma offline_world_fields:
  "GH_TOKEN offline_world = Some ''token''"
  "users_api offline_world username attempt = Raises unreachable"
  "issues_api offline_world attempt = Raises unreachable"
  by (simp_all add: offline_world_def demo_world_def)

lemma failing_tracker_fields:
  "GH_TOKEN (failing_tracker fails) = Some ''token''"
  "tracker_api (failing_tracker fails) c = (if fails c then Some unreachable else None)"
  by (simp_all add: failing_tracker_def demo_world_def)

lemma unreachable_failure: "connection_failure unreachable" "is_RequestException unreachable"
  "class_of unreachable = ConnectionError"
  by (simp_all add: connection_failure_def is_RequestException_def unreachable_def)

lemma found_user_try:
  assumes "GH_TOKEN w = Some token" and "users_api w u k = Returns found_user"
  shows "user_except (user_try w u k) = Return (Some 12345)"
  using assms by (simp add: user_try_def user_except_def found_user_def)

lemma user_loop_return:
  assumes "k < MAX_RETRIES" and "user_except (user_try w u k) = Return v"
  shows "get_user_id_loop w u k tr = (Inr v, tr @ sent w k)"
  using assms by (subst get_user_id_loop.simps) simp

lemma issues_loop_return:
  assumes "k < MAX_RETRIES" and "issues_except k (issues_try w k) = Return v"
  shows "get_open_issues_loop w k tr = (Inr v, tr @ [Get k])"
  using assms by (subst get_open_issues_loop.simps) simp

lemma user_limited_step:
  assumes "GH_TOKEN w = Some token" and "k < MAX_RETRIES"
    and "users_api w u k = Returns r" and "rate_limited r reset_time"
  shows "get_user_id_loop w u k tr =
           get_user_id_loop w u (Suc k)
             (tr @ [Get k, Sleep (max (real_of_int reset_time - time_time w k) 0)])"
proof -
  have "user_except (user_try w u k)
          = Next [Sleep (max (real_of_int reset_time - time_time w k) 0)]"
    using user_try_rate_limited [OF assms(1,3,4)] by (simp add: user_except_def)
  from user_loop_next [OF assms(2) this] show ?thesis
    using assms(1) by (simp add: sent_def)
qed

lemma issues_limited_step:
  assumes "k < MAX_RETRIES" and "issues_api w k = Returns r" and "rate_limited r reset_time"
  shows "get_open_issues_loop w k tr =
           get_open_issues_loop w (Suc k)
             (tr @ [Get k] @ (if real_of_int reset_time > time_time w k
                              then [Sleep (real_of_int reset_time - time_time w k)] else []))"
proof -
  have "issues_except k (issues_try w k)
          = Next (if real_of_int reset_time > time_time w k
                  then [Sleep (real_of_int reset_time - time_time w k)] else [])"
    using issues_try_rate_limited [OF assms(2,3)] by (simp add: issues_except_def)
  from issues_loop_next [OF assms(1) this] show ?thesis .
qed

text \<open>
  C2, as the code has it. A 403 response whose remaining quota reads zero makes
  \<^verbatim>\<open>get_user_id\<close> call \<^verbatim>\<open>time.sleep\<close> with \<open>max (reset - now) 0\<close> (a call with \<open>0\<close>
  when the reset time is past) and makes \<^verbatim>\<open>get_open_issues\<close> sleep \<open>reset - now\<close>
  only when the reset time is still ahead; both then go on with the next attempt of
  the \<^verbatim>\<open>for\<close> loop over three attempts, in which a connection error or a timeout
  takes one attempt as well. After the third attempt no request is sent: three
  rate-limited answers give \<^verbatim>\<open>None\<close>, respectively the empty list.
\<close>

theorem rate_limit_retry:
  assumes "GH_TOKEN w = Some token" and "k < MAX_RETRIES"
  shows "(users_api w username k = Returns r \<and> rate_limited r reset_time \<longrightarrow>
            get_user_id_loop w username k tr =
              get_user_id_loop w username (Suc k)
                (tr @ [Get k, Sleep (max (real_of_int reset_time - time_time w k) 0)]))
         \<and> (issues_api w k = Returns r' \<and> rate_limited r' reset_time \<longrightarrow>
            get_open_issues_loop w k tr =
              get_open_issues_loop w (Suc k)
                (tr @ [Get k] @ (if real_of_int reset_time > time_time w k
                                 then [Sleep (real_of_int reset_time - time_time w k)] else [])))
         \<and> get_user_id_loop w username MAX_RETRIES tr = (Inr None, tr)
         \<and> get_open_issues_loop w MAX_RETRIES tr = (Inr [], tr)
         \<and> ((\<forall>j<MAX_RETRIES. \<exists>r reset. users_api w username j = Returns r \<and> rate_limited r reset)
              \<longrightarrow> fst (get_user_id w username) = Inr None)
         \<and> ((\<forall>j<MAX_RETRIES. \<exists>r reset. issues_api w j = Returns r \<and> rate_limited r reset)
              \<longrightarrow> fst (get_open_issues w) = Inr [])
         \<and> (users_api w username k = Raises e \<and> connection_failure e \<longrightarrow>
            get_user_id_loop w username k tr =
              get_user_id_loop w username (Suc k)
                (tr @ [Get k] @ (if class_of e = ReadTimeout then [] else [Sleep RETRY_DELAY])))
         \<and> (issues_api w k = Raises e' \<and> is_RequestException e' \<and> Suc k < MAX_RETRIES \<longrightarrow>
            get_open_issues_loop w k tr =
              get_open_issues_loop w (Suc k) (tr @ [Get k, Sleep RETRY_DELAY]))"
proof (intro conjI impI)
  assume f: "users_api w username k = Raises e \<and> connection_failure e"
  then have "user_except (user_try w username k)
               = Next (if class_of e = ReadTimeout then [] else [Sleep RETRY_DELAY])"
    using user_try_failure [OF assms(1), of username k e] by blast
  from user_loop_next [OF assms(2) this]
  show "get_user_id_loop w username k tr =
          get_user_id_loop w username (Suc k)
            (tr @ [Get k] @ (if class_of e = ReadTimeout then [] else [Sleep RETRY_DELAY]))"
    using assms(1) by (simp add: sent_def)
next
  assume f: "issues_api w k = Raises e' \<and> is_RequestException e' \<and> Suc k < MAX_RETRIES"
  then have "issues_except k (issues_try w k) = Next [Sleep RETRY_DELAY]"
    using issues_except_failure [of w k e'] by auto
  from issues_loop_next [OF assms(2) this]
  show "get_open_issues_loop w k tr =
          get_open_issues_loop w (Suc k) (tr @ [Get k, Sleep RETRY_DELAY])"
    by simp
next
  assume "users_api w username k = Returns r \<and> rate_limited r reset_time"
  then show "get_user_id_loop w username k tr =
              get_user_id_loop w username (Suc k)
                (tr @ [Get k, Sleep (max (real_of_int reset_time - time_time w k) 0)])"
    using user_limited_step [OF assms] by blast
next
  assume "issues_api w k = Returns r' \<and> rate_limited r' reset_time"
  then show "get_open_issues_loop w k tr =
              get_open_issues_loop w (Suc k)
                (tr @ [Get k] @ (if real_of_int reset_time > time_time w k
                                 then [Sleep (real_of_int reset_time - time_time w k)] else []))"
    using issues_limited_step [OF assms(2)] by blast
next
  show "get_user_id_loop w username MAX_RETRIES tr = (Inr None, tr)"
    by (rule user_loop_end)
next
  show "get_open_issues_loop w MAX_RETRIES tr = (Inr [], tr)"
    by (rule issues_loop_end)
next
  assume all: "\<forall>j<MAX_RETRIES. \<exists>r reset. users_api w username j = Returns r \<and> rate_limited r reset"
  have "\<exists>evs. user_except (user_try w username j) = Next evs" if "j < MAX_RETRIES" for j
  proof -
    from all that obtain r reset where "users_api w username j = Returns r" "rate_limited r reset"
      by blast
    from user_try_rate_limited [OF assms(1) this] show ?thesis
      by (simp add: user_except_def)
  qed
  then show "fst (get_user_id w username) = Inr None"
    unfolding get_user_id_def by (intro user_loop_exhausted) blast
next
  assume all: "\<forall>j<MAX_RETRIES. \<exists>r reset. issues_api w j = Returns r \<and> rate_limited r reset"
  have "\<exists>evs. issues_except j (issues_try w j) = Next evs" if "j < MAX_RETRIES" for j
  proof -
    from all that obtain r reset where "issues_api w j = Returns r" "rate_limited r reset"
      by blast
    from issues_try_rate_limited [OF this] show ?thesis
      by (simp add: issues_except_def)
  qed
  then have "fst (get_open_issues_loop w 0 []) = Inr []"
    by (intro issues_loop_exhausted) blast
  then show "fst (get_open_issues w) = Inr []"
    using assms(1) by (simp add: get_open_issues_def)
qed

lemma three: "(0::nat) < MAX_RETRIES" "Suc 0 < MAX_RETRIES" "Suc (Suc 0) < MAX_RETRIES"
  "Suc (Suc (Suc 0)) = MAX_RETRIES"
  by (simp_all add: MAX_RETRIES_def)

lemma limited_user_run:
  "get_user_id limited_world ''octocat''
     = (Inr None, [Get 0, Sleep 30, Get 1, Sleep 30, Get 2, Sleep 30])"
proof -
  have step: "get_user_id_loop limited_world ''octocat'' k tr
                = get_user_id_loop limited_world ''octocat'' (Suc k) (tr @ [Get k, Sleep 30])"
    if "k < MAX_RETRIES" for k tr
    using user_limited_step [OF limited_world_fields(1) that, of "''octocat''" limited_user 1000030 tr]
      that
    by (simp add: limited_world_fields rate_limited_examples MAX_RETRIES_def)
  show ?thesis
    unfolding get_user_id_def
    by (simp add: step three user_loop_end numeral_2_eq_2)
qed

lemma limited_issues_run:
  "get_open_issues limited_world
     = (Inr [], [Get 0, Sleep 30, Get 1, Sleep 30, Get 2, Sleep 30])"
proof -
  have step: "get_open_issues_loop limited_world k tr
                = get_open_issues_loop limited_world (Suc k) (tr @ [Get k, Sleep 30])"
    if "k < MAX_RETRIES" for k tr
    using issues_limited_step [OF that, of limited_world limited_issues 1000030 tr] that
    by (simp add: limited_world_fields rate_limited_examples MAX_RETRIES_def)
  show ?thesis
    unfolding get_open_issues_def
    by (simp add: limited_world_fields step three issues_loop_end numeral_2_eq_2)
qed

lemma mixed_user_run:
  "get_user_id mixed_world ''octocat''
     = (Inr None, [Get 0, Sleep 5, Get 1, Sleep 5, Get 2, Sleep 30])"
proof -
  have fail: "get_user_id_loop mixed_world ''octocat'' k tr
                = get_user_id_loop mixed_world ''octocat'' (Suc k) (tr @ [Get k, Sleep 5])"
    if "k < 2" for k tr
  proof -
    have "user_except (user_try mixed_world ''octocat'' k) = Next [Sleep RETRY_DELAY]"
      using user_try_failure [OF mixed_world_fields(1) _ unreachable_failure(1), of "''octocat''" k] that
      by (simp add: mixed_world_fields unreachable_failure)
    from user_loop_next [OF _ this, of tr] that show ?thesis
      by (simp add: MAX_RETRIES_def sent_def mixed_world_fields RETRY_DELAY_def)
  qed
  have lim: "get_user_id_loop mixed_world ''octocat'' 2 tr
               = get_user_id_loop mixed_world ''octocat'' MAX_RETRIES (tr @ [Get 2, Sleep 30])" for tr
    using user_limited_step [OF mixed_world_fields(1), of 2 "''octocat''" limited_user 1000030 tr]
    by (simp add: mixed_world_fields rate_limited_examples MAX_RETRIES_def)
  have "get_user_id_loop mixed_world ''octocat'' 0 []
          = get_user_id_loop mixed_world ''octocat'' 2 [Get 0, Sleep 5, Get 1, Sleep 5]"
    using fail [of 0 "[]"] fail [of 1 "[Get 0, Sleep 5]"] by (simp add: numeral_2_eq_2)
  then show ?thesis
    unfolding get_user_id_def by (simp add: lim user_loop_end)
qed

text \<open>
  Three rate-limited answers end the lookup and the listing although a fourth request
  would be answered; after two connection errors a single rate-limited answer ends the
  lookup as well.
\<close>

theorem rate_limit_uses_attempts:
  "users_api limited_world ''octocat'' 3 = Returns found_user
   \<and> get_user_id limited_world ''octocat''
       = (Inr None, [Get 0, Sleep 30, Get 1, Sleep 30, Get 2, Sleep 30])
   \<and> issues_api limited_world 3 = Returns no_issues
   \<and> get_open_issues limited_world
       = (Inr [], [Get 0, Sleep 30, Get 1, Sleep 30, Get 2, Sleep 30])
   \<and> users_api mixed_world ''octocat'' 3 = Returns found_user
   \<and> get_user_id mixed_world ''octocat''
       = (Inr None, [Get 0, Sleep 5, Get 1, Sleep 5, Get 2, Sleep 30])"
  by (simp add: limited_user_run limited_issues_run mixed_user_run limited_world_fields
      mixed_world_fields)

theorem rate_limit_retry_witness:
  "GH_TOKEN expired_world = Some ''token'' \<and> 0 < MAX_RETRIES
   \<and> users_api expired_world ''octocat'' 0 = Returns expired_user
   \<and> rate_limited expired_user 999970
   \<and> issues_api expired_world 0 = Returns expired_issues
   \<and> rate_limited expired_issues 999970
   \<and> get_user_id_loop expired_world ''octocat'' 0 []
       = get_user_id_loop expired_world ''octocat'' 1 [Get 0, Sleep 0]
   \<and> get_open_issues_loop expired_world 0 [] = get_open_issues_loop expired_world 1 [Get 0]
   \<and> GH_TOKEN limited_world = Some ''token''
   \<and> users_api limited_world ''octocat'' 0 = Returns limited_user
   \<and> users_api limited_world ''octocat'' 1 = Returns limited_user
   \<and> users_api limited_world ''octocat'' 2 = Returns limited_user
   \<and> issues_api limited_world 0 = Returns limited_issues
   \<and> issues_api limited_world 1 = Returns limited_issues
   \<and> issues_api limited_world 2 = Returns limited_issues
   \<and> rate_limited limited_user 1000030 \<and> rate_limited limited_issues 1000030
   \<and> get_user_id_loop limited_world ''octocat'' 0 []
       = get_user_id_loop limited_world ''octocat'' 1 [Get 0, Sleep 30]
   \<and> fst (get_user_id limited_world ''octocat'') = Inr None
   \<and> fst (get_open_issues limited_world) = Inr []
   \<and> GH_TOKEN offline_world = Some ''token''
   \<and> users_api offline_world ''octocat'' 0 = Raises unreachable
   \<and> issues_api offline_world 0 = Raises unreachable
   \<and> connection_failure unreachable \<and> is_RequestException unreachable
   \<and> get_user_id_loop offline_world ''octocat'' 0 []
       = get_user_id_loop offline_world ''octocat'' 1 [Get 0, Sleep 5]
   \<and> get_open_issues_loop offline_world 0 []
       = get_open_issues_loop offline_world 1 [Get 0, Sleep 5]"
proof -
  note f = rate_limit_retry [OF offline_world_fields(1) three(1),
      of "''octocat''" _ _ "[]" _ unreachable unreachable]
  have f1: "get_user_id_loop offline_world ''octocat'' 0 []
       = get_user_id_loop offline_world ''octocat'' 1 [Get 0, Sleep 5]"
    using f by (simp add: offline_world_fields unreachable_failure RETRY_DELAY_def)
  have f2: "get_open_issues_loop offline_world 0 []
       = get_open_issues_loop offline_world 1 [Get 0, Sleep 5]"
    using f by (simp add: offline_world_fields unreachable_failure RETRY_DELAY_def three)
  have a: "\<forall>j<MAX_RETRIES. users_api limited_world ''octocat'' j = Returns limited_user"
    and b: "\<forall>j<MAX_RETRIES. issues_api limited_world j = Returns limited_issues"
    by (simp_all add: limited_world_fields MAX_RETRIES_def)
  note x = rate_limit_retry [OF expired_world_fields(1) three(1),
      of "''octocat''" expired_user 999970 "[]" expired_issues]
  note l = rate_limit_retry [OF limited_world_fields(1) three(1),
      of "''octocat''" limited_user 1000030 "[]" limited_issues]
  have x1: "get_user_id_loop expired_world ''octocat'' 0 []
       = get_user_id_loop expired_world ''octocat'' 1 [Get 0, Sleep 0]"
    using x by (simp add: expired_world_fields rate_limited_examples)
  have x2: "get_open_issues_loop expired_world 0 [] = get_open_issues_loop expired_world 1 [Get 0]"
    using x by (simp add: expired_world_fields rate_limited_examples)
  have l1: "get_user_id_loop limited_world ''octocat'' 0 []
       = get_user_id_loop limited_world ''octocat'' 1 [Get 0, Sleep 30]"
    using l by (simp add: limited_world_fields rate_limited_examples)
  have l2: "fst (get_user_id limited_world ''octocat'') = Inr None"
    using l a rate_limited_examples(1) by blast
  have l3: "fst (get_open_issues limited_world) = Inr []"
    using l b rate_limited_examples(2) by blast
  show ?thesis
    using x1 x2 l1 l2 l3 f1 f2
    by (simp add: expired_world_fields limited_world_fields rate_limited_examples three
        offline_world_fields unreachable_failure)
qed

section \<open>Connection failures\<close>

lemma fetch_failure_text:
  "fetch_failure = Exn RuntimeError ''Failed to fetch issues after 3 attempts''"
  by (simp add: fetch_failure_def MAX_RETRIES_def digit_chars_def)

text \<open>
  C3, as the code has it. When every attempt of \<^verbatim>\<open>get_user_id\<close> ends in a connection
  error or a read timeout, the result is \<^verbatim>\<open>None\<close>. When every attempt of
  \<^verbatim>\<open>get_open_issues\<close> ends in a request exception, the third one raises
  \<^verbatim>\<open>RuntimeError\<close>. In \<^verbatim>\<open>answer\<close>, an exception of the labelling, of the comment or
  of the closing leaves the function.
\<close>

theorem connection_failures:
  assumes "GH_TOKEN w = Some token"
  shows "((\<forall>j<MAX_RETRIES. \<exists>e. users_api w username j = Raises e \<and> connection_failure e)
            \<longrightarrow> fst (get_user_id w username) = Inr None)
         \<and> ((\<forall>j<MAX_RETRIES. \<exists>e. issues_api w j = Raises e \<and> is_RequestException e)
            \<longrightarrow> fst (get_open_issues w)
                  = Inl (Exn RuntimeError ''Failed to fetch issues after 3 attempts''))
         \<and> (tracker_api w (AddLabel number (label_of is_valid is_authorized)) = Some e
            \<longrightarrow> fst (answer w is_valid message number is_authorized) = Some e)
         \<and> (tracker_api w (AddLabel number (label_of is_valid is_authorized)) = None
            \<and> tracker_api w (AddComment number message) = Some e
            \<longrightarrow> fst (answer w is_valid message number is_authorized) = Some e)
         \<and> (tracker_api w (AddLabel number (label_of is_valid is_authorized)) = None
            \<and> tracker_api w (AddComment number message) = None
            \<and> tracker_api w (CloseIssue number) = Some e
            \<longrightarrow> fst (answer w is_valid message number is_authorized) = Some e)"
proof (intro conjI impI)
  assume all: "\<forall>j<MAX_RETRIES. \<exists>e. users_api w username j = Raises e \<and> connection_failure e"
  have "\<exists>evs. user_except (user_try w username j) = Next evs" if "j < MAX_RETRIES" for j
  proof -
    from all that obtain e where "users_api w username j = Raises e" "connection_failure e"
      by blast
    from user_try_failure [OF assms this] show ?thesis by simp
  qed
  then show "fst (get_user_id w username) = Inr None"
    unfolding get_user_id_def by (intro user_loop_exhausted) blast
next
  assume all: "\<forall>j<MAX_RETRIES. \<exists>e. issues_api w j = Raises e \<and> is_RequestException e"
  then have "fst (get_open_issues_loop w 0 []) = Inl fetch_failure"
    by (intro issues_loop_failures) (auto simp: MAX_RETRIES_def)
  then show "fst (get_open_issues w)
               = Inl (Exn RuntimeError ''Failed to fetch issues after 3 attempts'')"
    using assms by (simp add: get_open_issues_def fetch_failure_text)
next
  assume "tracker_api w (AddLabel number (label_of is_valid is_authorized)) = Some e"
  then show "fst (answer w is_valid message number is_authorized) = Some e"
    using assms by (simp add: answer_def)
next
  assume "tracker_api w (AddLabel number (label_of is_valid is_authorized)) = None
            \<and> tracker_api w (AddComment number message) = Some e"
  then show "fst (answer w is_valid message number is_authorized) = Some e"
    using assms by (simp add: answer_def)
next
  assume "tracker_api w (AddLabel number (label_of is_valid is_authorized)) = None
            \<and> tracker_api w (AddComment number message) = None
            \<and> tracker_api w (CloseIssue number) = Some e"
  then show "fst (answer w is_valid message number is_authorized) = Some e"
    using assms by (simp add: answer_def)
qed

lemma offline_issues_run:
  "get_open_issues offline_world
     = (Inl (Exn RuntimeError ''Failed to fetch issues after 3 attempts''),
        [Get 0, Sleep 5, Get 1, Sleep 5, Get 2])"
proof -
  have ex: "issues_except k (issues_try offline_world k)
              = (if k < MAX_RETRIES - 1 then Next [Sleep RETRY_DELAY] else Raise fetch_failure)" for k
    by (rule issues_except_failure [OF offline_world_fields(3) unreachable_failure(2)])
  have s: "get_open_issues_loop offline_world k tr
             = get_open_issues_loop offline_world (Suc k) (tr @ [Get k, Sleep 5])"
    if "k < 2" for k tr
    using issues_loop_next [of k offline_world "[Sleep RETRY_DELAY]" tr] that
    by (simp add: ex MAX_RETRIES_def RETRY_DELAY_def)
  have e: "get_open_issues_loop offline_world 2 tr = (Inl fetch_failure, tr @ [Get 2])" for tr
    using issues_loop_raise [of 2 offline_world fetch_failure tr]
    by (simp add: ex MAX_RETRIES_def)
  have "get_open_issues_loop offline_world 0 []
          = get_open_issues_loop offline_world 2 [Get 0, Sleep 5, Get 1, Sleep 5]"
    using s [of 0 "[]"] s [of 1 "[Get 0, Sleep 5]"] by (simp add: numeral_2_eq_2)
  then show ?thesis
    by (simp add: get_open_issues_def offline_world_fields e fetch_failure_text)
qed

text \<open>Three connection errors in a row make the listing raise.\<close>

theorem listing_raises_after_three_failures:
  "issues_api offline_world 0 = Raises (Exn ConnectionError ''unreachable'')
   \<and> issues_api offline_world 1 = Raises (Exn ConnectionError ''unreachable'')
   \<and> issues_api offline_world 2 = Raises (Exn ConnectionError ''unreachable'')
   \<and> get_open_issues offline_world
       = (Inl (Exn RuntimeError ''Failed to fetch issues after 3 attempts''),
          [Get 0, Sleep 5, Get 1, Sleep 5, Get 2])"
  by (simp add: offline_issues_run offline_world_fields unreachable_def)

theorem connection_failures_witness:
  "GH_TOKEN offline_world = Some ''token''
   \<and> users_api offline_world ''octocat'' 0 = Raises unreachable
   \<and> users_api offline_world ''octocat'' 1 = Raises unreachable
   \<and> users_api offline_world ''octocat'' 2 = Raises unreachable
   \<and> issues_api offline_world 0 = Raises unreachable
   \<and> issues_api offline_world 1 = Raises unreachable
   \<and> issues_api offline_world 2 = Raises unreachable
   \<and> connection_failure unreachable \<and> is_RequestException unreachable
   \<and> fst (get_user_id offline_world ''octocat'') = Inr None
   \<and> fst (get_open_issues offline_world)
       = Inl (Exn RuntimeError ''Failed to fetch issues after 3 attempts'')
   \<and> tracker_api (failing_tracker is_label) (AddLabel ''7'' (label_of True True)) = Some unreachable
   \<and> fst (answer (failing_tracker is_label) True ''thanks'' ''7'' True) = Some unreachable
   \<and> tracker_api (failing_tracker is_comment) (AddLabel ''7'' (label_of True True)) = None
   \<and> tracker_api (failing_tracker is_comment) (AddComment ''7'' ''thanks'') = Some unreachable
   \<and> fst (answer (failing_tracker is_comment) True ''thanks'' ''7'' True) = Some unreachable
   \<and> tracker_api (failing_tracker is_close) (AddLabel ''7'' (label_of True True)) = None
   \<and> tracker_api (failing_tracker is_close) (AddComment ''7'' ''thanks'') = None
   \<and> tracker_api (failing_tracker is_close) (CloseIssue ''7'') = Some unreachable
   \<and> fst (answer (failing_tracker is_close) True ''thanks'' ''7'' True) = Some unreachable"
proof -
  note o = connection_failures [OF offline_world_fields(1), of "''octocat''"]
  have o1: "fst (get_user_id offline_world ''octocat'') = Inr None"
    using o unreachable_failure(1) by (simp add: offline_world_fields)
  have o2: "fst (get_open_issues offline_world)
       = Inl (Exn RuntimeError ''Failed to fetch issues after 3 attempts'')"
    using o unreachable_failure(2) by (simp add: offline_world_fields)
  have a1: "fst (answer (failing_tracker is_label) True ''thanks'' ''7'' True) = Some unreachable"
    using connection_failures [OF failing_tracker_fields(1), of is_label "''octocat''" "''7''" True True
        unreachable "''thanks''"]
    by (simp add: failing_tracker_fields)
  have a2: "fst (answer (failing_tracker is_comment) True ''thanks'' ''7'' True) = Some unreachable"
    using connection_failures [OF failing_tracker_fields(1), of is_comment "''octocat''" "''7''" True True
        unreachable "''thanks''"]
    by (simp add: failing_tracker_fields)
  have a3: "fst (answer (failing_tracker is_close) True ''thanks'' ''7'' True) = Some unreachable"
    using connection_failures [OF failing_tracker_fields(1), of is_close "''octocat''" "''7''" True True
        unreachable "''thanks''"]
    by (simp add: failing_tracker_fields)
  show ?thesis
    using o1 o2 a1 a2 a3
    by (simp add: offline_world_fields failing_tracker_fields unreachable_failure)
qed

section \<open>Membership in the allow-list\<close>

text \<open>
  C9. Without the file \<^verbatim>\<open>safe_list.txt\<close> the answer is \<^verbatim>\<open>False\<close> for every identity,
  and nothing is raised. With the file, the answer is \<^verbatim>\<open>True\<close> exactly when a line of
  it, stripped, is \<^verbatim>\<open>str(user_id)\<close>, the decimal text of a numeric identity.
\<close>

theorem safe_list_lookup:
  "(safe_list_file w = None \<longrightarrow> is_in_safe_list w user_id = False)
   \<and> (safe_list_file w = Some content \<longrightarrow>
        is_in_safe_list w user_id
          = (\<exists>line \<in> set (file_lines [] content). strip line = py_str user_id))
   \<and> py_str (Some n) = show_int n"
proof (intro conjI impI)
  assume "safe_list_file w = None"
  then show "is_in_safe_list w user_id = False"
    by (simp add: is_in_safe_list_def)
next
  assume "safe_list_file w = Some content"
  then show "is_in_safe_list w user_id
          = (\<exists>line \<in> set (file_lines [] content). strip line = py_str user_id)"
    by (auto simp: is_in_safe_list_def intro: rev_image_eqI)
next
  show "py_str (Some n) = show_int n"
    by (simp add: py_str_def)
qed

lemma show_int_examples: "show_int 12345 = ''12345''" "show_int 7 = ''7''"
  by (simp_all add: show_int_def digit_chars_def)

lemma no_list_world_fields: "safe_list_file no_list_world = None"
  by (simp add: no_list_world_def demo_world_def)

lemma demo_list_lines:
  "file_lines [] ''42\<newline> 12345 \<newline>'' = [''42\<newline>'', '' 12345 \<newline>'']"
  by simp

lemma demo_list_strips: "strip ''42\<newline>'' = ''42''" "strip '' 12345 \<newline>'' = ''12345''"
  by (simp_all add: strip_def is_space_def whitespace_def)

lemma demo_user_listed: "is_in_safe_list demo_world (Some 12345)"
  by (simp add: is_in_safe_list_def demo_world_fields demo_list_lines demo_list_strips
      py_str_def show_int_examples)

theorem safe_list_lookup_witness:
  "safe_list_file no_list_world = None
   \<and> is_in_safe_list no_list_world (Some 12345) = False
   \<and> safe_list_file demo_world = Some ''42\<newline> 12345 \<newline>''
   \<and> is_in_safe_list demo_world (Some 12345) = True
   \<and> is_in_safe_list demo_world (Some 7) = False"
proof -
  have a: "is_in_safe_list no_list_world (Some 12345) = False"
    using safe_list_lookup [of no_list_world "Some 12345"] by (simp add: no_list_world_fields)
  have b: "is_in_safe_list demo_world (Some 12345) = True"
    using safe_list_lookup [of demo_world "Some 12345" "''42\<newline> 12345 \<newline>''" 12345]
    by (simp add: demo_world_fields demo_list_lines demo_list_strips show_int_examples)
  have c: "is_in_safe_list demo_world (Some 7) = False"
    using safe_list_lookup [of demo_world "Some 7" "''42\<newline> 12345 \<newline>''" 7]
    by (simp add: demo_world_fields demo_list_lines demo_list_strips show_int_examples)
  show ?thesis using a b c by (simp add: no_list_world_fields demo_world_fields)
qed

section \<open>Triage of an issue\<close>

lemma answer_completes:
  assumes "GH_TOKEN w = Some token"
    and "tracker_api w (AddLabel number (label_of is_valid is_authorized)) = None"
    and "tracker_api w (AddComment number message) = None"
    and "tracker_api w (CloseIssue number) = None"
  shows "answer w is_valid message number is_authorized
           = (None, [AddLabel number (label_of is_valid is_authorized),
                     AddComment number message, CloseIssue number])"
  using assms by (simp add: answer_def)

lemma validate_verdict:
  assumes "validate_title w title = Inr (True, m)"
    and "split SEPARATOR body = meta # cits # rest"
  shows "\<exists>message. validate w title (Some body)
           = Inr (validator_accepts w (strip meta) (strip cits), message)
         \<and> (validator_accepts w (strip meta) (strip cits) \<longrightarrow> message = thanks_message)"
proof -
  have "contains SEPARATOR body"
    using assms(2) by (rule split_two_contains)
  then show ?thesis
    using assms
    by (auto simp: validate_def validator_accepts_def Let_def split: sum.splits prod.splits)
qed

lemma validate_true_message:
  assumes "validate w title body = Inr (True, message)"
  shows "message = thanks_message"
  using assms
  by (auto simp: validate_def Let_def
      split: sum.splits prod.splits if_splits list.splits option.splits)

lemma thanks_contains: "contains ''Thank you for your contribution'' thanks_message"
  by (simp add: thanks_message_def)

lemma doi_title_valid:
  assumes "re_search title = Some (domain, g2, identifier)" and "lower g2 = ''doi''"
    and "id_is_valid w ''doi'' True identifier = Inr True"
  shows "validate_title w title = Inr (True, [])"
  using assms by (simp add: validate_title_def manager_map_def needs_api_def)

lemma data_too_many:
  assumes "split SEPARATOR body = a # b # c # others"
  shows "get_data_to_store w title (Some body) created_at source user_id
           = Inl (process_failure (Exn ValueError ''too many values to unpack (expected 2)''))"
  using assms by (simp add: get_data_to_store_def)

lemma data_empty:
  assumes "split SEPARATOR body = [meta, cits]"
    and "csv_DictReader w (strip meta) = Inr [] \<or> csv_DictReader w (strip cits) = Inr []"
  shows "isl (get_data_to_store w title (Some body) created_at source user_id)"
  using assms by (auto simp: get_data_to_store_def split: sum.splits)

lemma data_stored:
  assumes "split SEPARATOR body = [meta, cits]"
    and "csv_DictReader w (strip meta) = Inr metadata" and "metadata \<noteq> []"
    and "csv_DictReader w (strip cits) = Inr citations" and "citations \<noteq> []"
  shows "get_data_to_store w title (Some body) created_at source user_id
           = Inr \<lparr>data_title = title, data_metadata = metadata, data_citations = citations,
                  generatedAtTime = created_at, wasAttributedTo = user_id,
                  hadPrimarySource = source\<rparr>"
  using assms by (simp add: get_data_to_store_def)

lemma process_issue_answered:
  assumes "fst (get_user_id w (author_login i)) = Inr user_id"
    and "is_in_safe_list w user_id"
    and "validate w (issue_title i) (issue_body i) = Inr (is_valid, message)"
    and "answer w is_valid message (issue_number i) True = (None, cs)"
  shows "process_issue w i st =
           (None,
            (case (if is_valid
                   then get_data_to_store w (issue_title i) (issue_body i) (createdAt i)
                          (issue_url i) user_id
                   else Inl (Exn OtherError [])) of
               Inr issue_data \<Rightarrow> st\<lparr>data_to_store := data_to_store st @ [issue_data],
                                    calls := calls st @ cs\<rparr>
             | Inl e \<Rightarrow> st\<lparr>calls := calls st @ cs\<rparr>))"
  using assms by (simp add: process_issue_def split: sum.splits)

lemma process_issue_raises:
  assumes "fst (get_user_id w (author_login i)) = Inr user_id"
    and "is_in_safe_list w user_id"
    and "validate w (issue_title i) (issue_body i) = Inl e"
  shows "process_issue w i st = (Some e, st)"
  using assms by (simp add: process_issue_def)

text \<open>
  C8. Let the title pass its check. When the body is a text that does not contain the
  separator, \<^verbatim>\<open>validate\<close> fails with the fixed message, which contains
  \<^verbatim>\<open>Please use the separator\<close>; nothing else of the body is looked at. When the issue
  has no description, the body is \<^verbatim>\<open>None\<close> and the test for the separator raises
  \<^verbatim>\<open>TypeError\<close>: \<^verbatim>\<open>validate\<close> returns no message, and the loop over the issues of an
  authorised author ends in that exception with no call on the tracker, the issues
  after this one left aside.
\<close>

theorem missing_separator:
  assumes "validate_title w title = Inr (True, m)"
    and "\<not> contains SEPARATOR body"
  shows "validate w title (Some body) = Inr (False, separator_message)
         \<and> contains ''Please use the separator'' separator_message
         \<and> validate w title None = Inl not_iterable
         \<and> (issue_title i = title \<and> issue_body i = None
            \<and> fst (get_user_id w (author_login i)) = Inr user_id \<and> is_in_safe_list w user_id
            \<longrightarrow> process_issues w (i # rest) st = (Some not_iterable, st))"
proof -
  have a: "validate w title (Some body) = Inr (False, separator_message)"
    using assms by (simp add: validate_def)
  have b: "contains ''Please use the separator'' separator_message"
    by (simp add: separator_message_def)
  have c: "validate w title None = Inl not_iterable"
    using assms(1) by (simp add: validate_def)
  have e: "issue_title i = title \<and> issue_body i = None
            \<and> fst (get_user_id w (author_login i)) = Inr user_id \<and> is_in_safe_list w user_id
            \<longrightarrow> process_issues w (i # rest) st = (Some not_iterable, st)"
  proof (intro impI, elim conjE)
    assume t: "issue_title i = title" and n: "issue_body i = None"
      and u: "fst (get_user_id w (author_login i)) = Inr user_id"
      and l: "is_in_safe_list w user_id"
    have "validate w (issue_title i) (issue_body i) = Inl not_iterable"
      using c t n by simp
    from process_issue_raises [OF u l this]
    show "process_issues w (i # rest) st = (Some not_iterable, st)"
      by simp
  qed
  show ?thesis
    by (rule conjI [OF a conjI [OF b conjI [OF c e]]])
qed

text \<open>
  C5. Take an issue whose author is resolved to an identity on the allow-list, whose
  title matches with the schema \<^verbatim>\<open>doi\<close> and an identifier the manager accepts, and
  whose body is a text that splits into exactly two sections that both parse to at
  least one row and that the validator accepts; let the three calls on the tracker
  return. Then \<^verbatim>\<open>validate\<close> succeeds with the message of thanks, and the turn of the
  loop appends exactly one payload, attributed to the identity that \<^verbatim>\<open>get_user_id\<close>
  returned.
\<close>

theorem accepted_contribution:
  assumes user: "fst (get_user_id w (author_login i)) = Inr user_id"
    and listed: "is_in_safe_list w user_id"
    and title: "re_search (issue_title i) = Some (domain, g2, identifier)" "lower g2 = ''doi''"
      "id_is_valid w ''doi'' True identifier = Inr True"
    and body: "issue_body i = Some body" "split SEPARATOR body = [meta, cits]"
    and rows: "csv_DictReader w (strip meta) = Inr metadata" "metadata \<noteq> []"
      "csv_DictReader w (strip cits) = Inr citations" "citations \<noteq> []"
    and valid: "validator_accepts w (strip meta) (strip cits)"
    and tracker: "GH_TOKEN w = Some token"
      "tracker_api w (AddLabel (issue_number i) ''to be processed'') = None"
      "tracker_api w (AddComment (issue_number i) thanks_message) = None"
      "tracker_api w (CloseIssue (issue_number i)) = None"
  shows "validate w (issue_title i) (issue_body i) = Inr (True, thanks_message)
         \<and> contains ''Thank you for your contribution'' thanks_message
         \<and> process_issue w i st =
             (None,
              st\<lparr>data_to_store := data_to_store st @
                     [\<lparr>data_title = issue_title i, data_metadata = metadata,
                       data_citations = citations, generatedAtTime = createdAt i,
                       wasAttributedTo = user_id, hadPrimarySource = issue_url i\<rparr>],
                 calls := calls st @
                     [AddLabel (issue_number i) ''to be processed'',
                      AddComment (issue_number i) thanks_message,
                      CloseIssue (issue_number i)]\<rparr>)"
proof -
  have t: "validate_title w (issue_title i) = Inr (True, [])"
    by (rule doi_title_valid [OF title])
  from validate_verdict [OF t body(2)] valid
  have v: "validate w (issue_title i) (issue_body i) = Inr (True, thanks_message)"
    by (auto simp: body(1))
  have a: "answer w True thanks_message (issue_number i) True
             = (None, [AddLabel (issue_number i) ''to be processed'',
                       AddComment (issue_number i) thanks_message,
                       CloseIssue (issue_number i)])"
    using answer_completes [OF tracker(1), of "issue_number i" True True thanks_message] tracker
    by (simp add: label_of_def)
  have d: "get_data_to_store w (issue_title i) (issue_body i) (createdAt i) (issue_url i) user_id
             = Inr \<lparr>data_title = issue_title i, data_metadata = metadata,
                    data_citations = citations, generatedAtTime = createdAt i,
                    wasAttributedTo = user_id, hadPrimarySource = issue_url i\<rparr>"
    unfolding body(1) by (rule data_stored [OF body(2) rows])
  have p: "process_issue w i st =
             (None,
              st\<lparr>data_to_store := data_to_store st @
                     [\<lparr>data_title = issue_title i, data_metadata = metadata,
                       data_citations = citations, generatedAtTime = createdAt i,
                       wasAttributedTo = user_id, hadPrimarySource = issue_url i\<rparr>],
                 calls := calls st @
                     [AddLabel (issue_number i) ''to be processed'',
                      AddComment (issue_number i) thanks_message,
                      CloseIssue (issue_number i)]\<rparr>)"
    using process_issue_answered [OF user listed v a, of st] by (simp add: d)
  show ?thesis
    using v thanks_contains p by blast
qed

text \<open>
  C10. When \<^verbatim>\<open>validate\<close> succeeds for the issue of an authorised author and
  \<^verbatim>\<open>get_data_to_store\<close> then raises, the issue has been labelled
  \<^verbatim>\<open>to be processed\<close>, thanked and closed, the accumulator is unchanged, and the loop
  goes on with the next issue. A body with more than one separator, or with a section
  that parses to no row, makes \<^verbatim>\<open>get_data_to_store\<close> raise.
\<close>

theorem answered_without_payload:
  assumes user: "fst (get_user_id w (author_login i)) = Inr user_id"
    and listed: "is_in_safe_list w user_id"
    and valid: "validate w (issue_title i) (issue_body i) = Inr (True, message)"
    and tracker: "GH_TOKEN w = Some token"
      "tracker_api w (AddLabel (issue_number i) ''to be processed'') = None"
      "tracker_api w (AddComment (issue_number i) message) = None"
      "tracker_api w (CloseIssue (issue_number i)) = None"
    and raised: "get_data_to_store w (issue_title i) (issue_body i) (createdAt i) (issue_url i)
                   user_id = Inl e"
  shows "process_issue w i st =
           (None, st\<lparr>calls := calls st @
                        [AddLabel (issue_number i) ''to be processed'',
                         AddComment (issue_number i) message,
                         CloseIssue (issue_number i)]\<rparr>)
         \<and> process_issues w (i # rest) st =
             process_issues w rest
               (st\<lparr>calls := calls st @
                        [AddLabel (issue_number i) ''to be processed'',
                         AddComment (issue_number i) message,
                         CloseIssue (issue_number i)]\<rparr>)
         \<and> message = thanks_message
         \<and> (split SEPARATOR body = a # b # c # others \<longrightarrow>
              isl (get_data_to_store w title (Some body) created_at source uid))
         \<and> (split SEPARATOR body = [meta, cits]
              \<and> (csv_DictReader w (strip meta) = Inr [] \<or> csv_DictReader w (strip cits) = Inr [])
              \<longrightarrow> isl (get_data_to_store w title (Some body) created_at source uid))"
proof -
  have a: "answer w True message (issue_number i) True
             = (None, [AddLabel (issue_number i) ''to be processed'',
                       AddComment (issue_number i) message,
                       CloseIssue (issue_number i)])"
    using answer_completes [OF tracker(1), of "issue_number i" True True message] tracker
    by (simp add: label_of_def)
  have p: "process_issue w i st =
           (None, st\<lparr>calls := calls st @
                        [AddLabel (issue_number i) ''to be processed'',
                         AddComment (issue_number i) message,
                         CloseIssue (issue_number i)]\<rparr>)"
    using process_issue_answered [OF user listed valid a, of st] by (simp add: raised)
  have q: "process_issues w (i # rest) st =
             process_issues w rest
               (st\<lparr>calls := calls st @
                        [AddLabel (issue_number i) ''to be processed'',
                         AddComment (issue_number i) message,
                         CloseIssue (issue_number i)]\<rparr>)"
    by (simp add: p)
  have m: "message = thanks_message"
    using valid by (rule validate_true_message)
  have x: "split SEPARATOR body = a # b # c # others \<longrightarrow>
              isl (get_data_to_store w title (Some body) created_at source uid)"
    by (simp add: data_too_many)
  have y: "split SEPARATOR body = [meta, cits]
              \<and> (csv_DictReader w (strip meta) = Inr [] \<or> csv_DictReader w (strip cits) = Inr [])
              \<longrightarrow> isl (get_data_to_store w title (Some body) created_at source uid)"
    using data_empty by blast
  show ?thesis
    using p q m x y by blast
qed

text \<open>
  What \<^verbatim>\<open>validate\<close> answers on a body with the separator is the verdict of the external
  validator on the first two sections; \<^verbatim>\<open>validate\<close> does not look at the rows itself,
  and the check of \<^verbatim>\<open>get_data_to_store\<close> comes after the answer.
\<close>

lemma validator_decides:
  assumes user: "fst (get_user_id w (author_login i)) = Inr user_id"
    and listed: "is_in_safe_list w user_id"
    and title: "validate_title w (issue_title i) = Inr (True, m)"
    and body: "issue_body i = Some body" "split SEPARATOR body = meta # cits # rest"
    and empty: "csv_DictReader w (strip meta) = Inr [] \<or> csv_DictReader w (strip cits) = Inr []"
    and tracker: "GH_TOKEN w = Some token" "\<forall>c. tracker_api w c = None"
  shows "\<exists>message.
           validate w (issue_title i) (issue_body i)
             = Inr (validator_accepts w (strip meta) (strip cits), message)
           \<and> isl (get_data_to_store w (issue_title i) (issue_body i) (createdAt i) (issue_url i)
                   user_id)
           \<and> process_issue w i st =
               (None, st\<lparr>calls := calls st @
                  [AddLabel (issue_number i)
                     (if validator_accepts w (strip meta) (strip cits)
                      then ''to be processed'' else ''invalid''),
                   AddComment (issue_number i) message,
                   CloseIssue (issue_number i)]\<rparr>)"
proof -
  from validate_verdict [OF title body(2)] obtain message where
    v: "validate w (issue_title i) (issue_body i)
          = Inr (validator_accepts w (strip meta) (strip cits), message)"
    unfolding body(1) by blast
  have d: "isl (get_data_to_store w (issue_title i) (issue_body i) (createdAt i) (issue_url i)
                 user_id)"
  proof (cases rest)
    case Nil
    with body empty show ?thesis by (simp add: data_empty [of _ meta cits])
  next
    case (Cons c others)
    with body show ?thesis by (simp add: data_too_many)
  qed
  have a: "answer w (validator_accepts w (strip meta) (strip cits)) message (issue_number i) True
             = (None, [AddLabel (issue_number i)
                         (if validator_accepts w (strip meta) (strip cits)
                          then ''to be processed'' else ''invalid''),
                       AddComment (issue_number i) message, CloseIssue (issue_number i)])"
    using answer_completes [OF tracker(1), of "issue_number i"
        "validator_accepts w (strip meta) (strip cits)" True message] tracker(2)
    by (simp add: label_of_def)
  have p: "process_issue w i st =
               (None, st\<lparr>calls := calls st @
                  [AddLabel (issue_number i)
                     (if validator_accepts w (strip meta) (strip cits)
                      then ''to be processed'' else ''invalid''),
                   AddComment (issue_number i) message,
                   CloseIssue (issue_number i)]\<rparr>)"
    using process_issue_answered [OF user listed v a, of st] d
    by (auto split: sum.splits)
  show ?thesis
    using v d p by blast
qed


section \<open>Triage of the example issues\<close>

lemma issue_fields:
  "issue_title good_issue = doi_title" "issue_number good_issue = ''1''"
  "author_login good_issue = ''octocat''" "createdAt good_issue = ''2024-01-01T00:00:00Z''"
  "issue_url good_issue = ''https://github.com/test/1''"
  "issue_body good_issue = Some good_text"
  "issue_title empty_issue = doi_title" "issue_number empty_issue = ''1''"
  "author_login empty_issue = ''octocat''" "createdAt empty_issue = ''2024-01-01T00:00:00Z''"
  "issue_url empty_issue = ''https://github.com/test/1''"
  "issue_body empty_issue = Some empty_text"
  "issue_title twice_issue = doi_title" "issue_number twice_issue = ''1''"
  "author_login twice_issue = ''octocat''" "createdAt twice_issue = ''2024-01-01T00:00:00Z''"
  "issue_url twice_issue = ''https://github.com/test/1''"
  "issue_body twice_issue = Some twice_text"
  "issue_title null_issue = doi_title" "issue_number null_issue = ''2''"
  "author_login null_issue = ''octocat''" "issue_body null_issue = None"
  by (simp_all add: good_issue_def empty_issue_def twice_issue_def null_issue_def)

lemma good_split:
  "split SEPARATOR good_text = [''id,title\<newline>1,Test\<newline>'', ''\<newline>citing,cited\<newline>a,b'']"
  by (simp add: good_text_def split_def SEPARATOR_def)

lemma empty_split:
  "split SEPARATOR empty_text = [''id,title\<newline>'', ''\<newline>citing,cited'']"
  by (simp add: empty_text_def split_def SEPARATOR_def)

lemma twice_split:
  "split SEPARATOR twice_text
     = [''id,title\<newline>1,Test\<newline>'', ''\<newline>citing,cited\<newline>a,b\<newline>'', ''\<newline>more'']"
  by (simp add: twice_text_def split_def SEPARATOR_def)

lemma section_strips:
  "strip ''id,title\<newline>1,Test\<newline>'' = ''id,title\<newline>1,Test''"
  "strip ''\<newline>citing,cited\<newline>a,b'' = ''citing,cited\<newline>a,b''"
  "strip ''\<newline>citing,cited\<newline>a,b\<newline>'' = ''citing,cited\<newline>a,b''"
  "strip ''id,title\<newline>'' = ''id,title''"
  "strip ''\<newline>citing,cited'' = ''citing,cited''"
  by (simp_all add: strip_def is_space_def whitespace_def)

lemma section_rows:
  "plain_reader ''id,title\<newline>1,Test'' = Inr [[(''id'', ''1''), (''title'', ''Test'')]]"
  "plain_reader ''citing,cited\<newline>a,b'' = Inr [[(''citing'', ''a''), (''cited'', ''b'')]]"
  "plain_reader ''id,title'' = Inr []"
  "plain_reader ''citing,cited'' = Inr []"
  by (simp_all add: plain_reader_def split_def newline_def)

lemma demo_user: "fst (get_user_id demo_world ''octocat'') = Inr (Some 12345)"
  unfolding get_user_id_def
  using user_loop_return [OF three(1) found_user_try [OF demo_world_fields(1) demo_world_fields(2)],
      of "''octocat''" "[]"]
  by simp

lemma demo_accepts: "validator_accepts demo_world meta cits"
  by (simp add: validator_accepts_def demo_world_fields error_messages_def strip_def)






lemma null_world_fields:
  "GH_TOKEN null_world = Some ''token''"
  "users_api null_world username attempt = Returns found_user"
  "issues_api null_world attempt
     = Returns \<lparr>status_code = 200, headers = [], json = Inr [null_issue, good_issue]\<rparr>"
  "safe_list_file null_world = Some ''42\<newline> 12345 \<newline>''"
  "id_is_valid null_world schema use_api identifier = Inr True"
  by (simp_all add: null_world_def demo_world_def)

lemma null_user: "fst (get_user_id null_world ''octocat'') = Inr (Some 12345)"
  unfolding get_user_id_def
  using user_loop_return [OF three(1) found_user_try [OF null_world_fields(1) null_world_fields(2)],
      of "''octocat''" "[]"]
  by simp

lemma null_user_listed: "is_in_safe_list null_world (Some 12345)"
  by (simp add: is_in_safe_list_def null_world_fields demo_list_lines demo_list_strips
      py_str_def show_int_examples)

lemma null_title_valid: "validate_title null_world doi_title = Inr (True, [])"
  by (simp add: validate_title_def search_doi lower_doi manager_map_def null_world_fields)

lemma null_listing: "fst (get_open_issues null_world) = Inr [null_issue, good_issue]"
proof -
  have "issues_except 0 (issues_try null_world 0) = Return [null_issue, good_issue]"
    by (simp add: issues_try_def issues_except_def null_world_fields)
  from issues_loop_return [OF three(1) this, of "[]"] show ?thesis
    by (simp add: get_open_issues_def null_world_fields)
qed

theorem missing_separator_witness:
  "validate_title null_world doi_title = Inr (True, [])
   \<and> \<not> contains SEPARATOR ''id,title WRONG_SEPARATOR citing,cited''
   \<and> validate null_world doi_title (Some ''id,title WRONG_SEPARATOR citing,cited'')
       = Inr (False, separator_message)
   \<and> issue_title null_issue = doi_title \<and> issue_body null_issue = None
   \<and> fst (get_user_id null_world (author_login null_issue)) = Inr (Some 12345)
   \<and> is_in_safe_list null_world (Some 12345)
   \<and> validate null_world (issue_title null_issue) (issue_body null_issue) = Inl not_iterable
   \<and> fst (get_open_issues null_world) = Inr [null_issue, good_issue]
   \<and> process_open_issues null_world = (Some not_iterable, \<lparr>data_to_store = [], calls = []\<rparr>)"
proof -
  have a: "\<not> contains SEPARATOR ''id,title WRONG_SEPARATOR citing,cited''"
    by (simp add: SEPARATOR_def)
  have u: "fst (get_user_id null_world (author_login null_issue)) = Inr (Some 12345)"
    by (simp add: issue_fields null_user)
  note sep = missing_separator [OF null_title_valid a,
      of null_issue "Some 12345" "[good_issue]" "\<lparr>data_to_store = [], calls = []\<rparr>"]
  have c: "validate null_world doi_title (Some ''id,title WRONG_SEPARATOR citing,cited'')
             = Inr (False, separator_message)"
    using sep by (rule conjunct1)
  have v: "validate null_world (issue_title null_issue) (issue_body null_issue)
             = Inl not_iterable"
    using sep by (simp add: issue_fields)
  have "process_issues null_world [null_issue, good_issue] \<lparr>data_to_store = [], calls = []\<rparr>
          = (Some not_iterable, \<lparr>data_to_store = [], calls = []\<rparr>)"
    using sep issue_fields(19) issue_fields(22) u null_user_listed by blast
  then have p: "process_open_issues null_world
                  = (Some not_iterable, \<lparr>data_to_store = [], calls = []\<rparr>)"
    by (simp add: process_open_issues_def null_listing)
  show ?thesis
    using null_title_valid a c issue_fields(19) issue_fields(22) u null_user_listed v
      null_listing p
    by blast
qed

theorem accepted_contribution_witness:
  "fst (get_user_id demo_world (author_login good_issue)) = Inr (Some 12345)
   \<and> is_in_safe_list demo_world (Some 12345)
   \<and> re_search (issue_title good_issue) = Some (''journal.com'', ''doi'', ''10.1007/x'')
   \<and> issue_body good_issue = Some good_text
   \<and> split SEPARATOR good_text = [''id,title\<newline>1,Test\<newline>'', ''\<newline>citing,cited\<newline>a,b'']
   \<and> csv_DictReader demo_world (strip ''id,title\<newline>1,Test\<newline>'')
       = Inr [[(''id'', ''1''), (''title'', ''Test'')]]
   \<and> csv_DictReader demo_world (strip ''\<newline>citing,cited\<newline>a,b'')
       = Inr [[(''citing'', ''a''), (''cited'', ''b'')]]
   \<and> validate demo_world (issue_title good_issue) (issue_body good_issue)
       = Inr (True, thanks_message)
   \<and> process_issue demo_world good_issue start =
       (None,
        \<lparr>data_to_store =
           [\<lparr>data_title = doi_title,
             data_metadata = [[(''id'', ''1''), (''title'', ''Test'')]],
             data_citations = [[(''citing'', ''a''), (''cited'', ''b'')]],
             generatedAtTime = ''2024-01-01T00:00:00Z'',
             wasAttributedTo = Some 12345,
             hadPrimarySource = ''https://github.com/test/1''\<rparr>],
         calls = [AddLabel ''1'' ''to be processed'', AddComment ''1'' thanks_message,
                  CloseIssue ''1'']\<rparr>)"
proof -
  have u: "fst (get_user_id demo_world (author_login good_issue)) = Inr (Some 12345)"
    by (simp add: issue_fields demo_user)
  have t: "re_search (issue_title good_issue) = Some (''journal.com'', ''doi'', ''10.1007/x'')"
    by (simp only: issue_fields search_doi)
  have r1: "csv_DictReader demo_world (strip ''id,title\<newline>1,Test\<newline>'')
       = Inr [[(''id'', ''1''), (''title'', ''Test'')]]"
    by (simp only: demo_world_fields section_strips section_rows)
  have r2: "csv_DictReader demo_world (strip ''\<newline>citing,cited\<newline>a,b'')
       = Inr [[(''citing'', ''a''), (''cited'', ''b'')]]"
    by (simp only: demo_world_fields section_strips section_rows)
  note acc = accepted_contribution [OF u demo_user_listed t lower_doi demo_world_fields(7)
      issue_fields(6) good_split r1 _ r2 _ demo_accepts demo_world_fields(1)
      demo_world_fields(5) demo_world_fields(5) demo_world_fields(5), of start]
  have v: "validate demo_world (issue_title good_issue) (issue_body good_issue)
       = Inr (True, thanks_message)"
    using acc by simp
  have p: "process_issue demo_world good_issue start =
       (None,
        \<lparr>data_to_store =
           [\<lparr>data_title = doi_title,
             data_metadata = [[(''id'', ''1''), (''title'', ''Test'')]],
             data_citations = [[(''citing'', ''a''), (''cited'', ''b'')]],
             generatedAtTime = ''2024-01-01T00:00:00Z'',
             wasAttributedTo = Some 12345,
             hadPrimarySource = ''https://github.com/test/1''\<rparr>],
         calls = [AddLabel ''1'' ''to be processed'', AddComment ''1'' thanks_message,
                  CloseIssue ''1'']\<rparr>)"
    using acc by (simp add: issue_fields start_def)
  show ?thesis
    using u demo_user_listed t issue_fields(6) good_split r1 r2 v p by blast
qed

lemma twice_validates:
  "validate demo_world (issue_title twice_issue) (issue_body twice_issue)
     = Inr (True, thanks_message)"
proof -
  have b: "split SEPARATOR twice_text
             = ''id,title\<newline>1,Test\<newline>'' # ''\<newline>citing,cited\<newline>a,b\<newline>'' # [''\<newline>more'']"
    by (simp only: twice_split)
  have t: "validate_title demo_world (issue_title twice_issue) = Inr (True, [])"
    by (simp only: issue_fields demo_title_valid)
  from validate_verdict [OF t b] demo_accepts show ?thesis
    by (auto simp: issue_fields)
qed

lemma twice_raises:
  "get_data_to_store demo_world (issue_title twice_issue) (issue_body twice_issue)
     (createdAt twice_issue) (issue_url twice_issue) (Some 12345)
   = Inl (Exn ValueError
            ''Failed to process issue data: too many values to unpack (expected 2)'')"
proof -
  have b: "split SEPARATOR twice_text
             = ''id,title\<newline>1,Test\<newline>'' # ''\<newline>citing,cited\<newline>a,b\<newline>'' # ''\<newline>more'' # []"
    by (simp only: twice_split)
  show ?thesis
    by (simp add: issue_fields(18) data_too_many [OF b] process_failure_def)
qed

theorem answered_without_payload_witness:
  "fst (get_user_id demo_world (author_login twice_issue)) = Inr (Some 12345)
   \<and> is_in_safe_list demo_world (Some 12345)
   \<and> validate demo_world (issue_title twice_issue) (issue_body twice_issue)
       = Inr (True, thanks_message)
   \<and> get_data_to_store demo_world (issue_title twice_issue) (issue_body twice_issue)
       (createdAt twice_issue) (issue_url twice_issue) (Some 12345)
       = Inl (Exn ValueError
                ''Failed to process issue data: too many values to unpack (expected 2)'')
   \<and> process_issue demo_world twice_issue start =
       (None, \<lparr>data_to_store = [],
               calls = [AddLabel ''1'' ''to be processed'', AddComment ''1'' thanks_message,
                        CloseIssue ''1'']\<rparr>)
   \<and> process_issues demo_world [twice_issue, good_issue] start =
       process_issues demo_world [good_issue]
         \<lparr>data_to_store = [],
          calls = [AddLabel ''1'' ''to be processed'', AddComment ''1'' thanks_message,
                   CloseIssue ''1'']\<rparr>
   \<and> issue_body twice_issue = Some twice_text
   \<and> split SEPARATOR twice_text
       = [''id,title\<newline>1,Test\<newline>'', ''\<newline>citing,cited\<newline>a,b\<newline>'', ''\<newline>more'']
   \<and> issue_body empty_issue = Some empty_text
   \<and> split SEPARATOR empty_text = [''id,title\<newline>'', ''\<newline>citing,cited'']
   \<and> csv_DictReader demo_world (strip ''id,title\<newline>'') = Inr []
   \<and> isl (get_data_to_store demo_world (issue_title empty_issue) (issue_body empty_issue)
            (createdAt empty_issue) (issue_url empty_issue) (Some 12345))"
proof -
  have u: "fst (get_user_id demo_world (author_login twice_issue)) = Inr (Some 12345)"
    by (simp add: issue_fields demo_user)
  have r: "csv_DictReader demo_world (strip ''id,title\<newline>'') = Inr []"
    by (simp only: demo_world_fields section_strips section_rows)
  note w = answered_without_payload [OF u demo_user_listed twice_validates demo_world_fields(1)
      demo_world_fields(5) demo_world_fields(5) demo_world_fields(5) twice_raises,
      of start "[good_issue]" empty_text _ _ _ _ "issue_title empty_issue"
        "createdAt empty_issue" "issue_url empty_issue" "Some 12345"
        "''id,title\<newline>''" "''\<newline>citing,cited''"]
  have p: "process_issue demo_world twice_issue start =
       (None, \<lparr>data_to_store = [],
               calls = [AddLabel ''1'' ''to be processed'', AddComment ''1'' thanks_message,
                        CloseIssue ''1'']\<rparr>)"
    using w by (simp add: issue_fields start_def)
  have q: "process_issues demo_world [twice_issue, good_issue] start =
       process_issues demo_world [good_issue]
         \<lparr>data_to_store = [],
          calls = [AddLabel ''1'' ''to be processed'', AddComment ''1'' thanks_message,
                   CloseIssue ''1'']\<rparr>"
    using w by (simp add: issue_fields start_def)
  have "isl (get_data_to_store demo_world (issue_title empty_issue) (Some empty_text)
            (createdAt empty_issue) (issue_url empty_issue) (Some 12345))"
    using w empty_split r by blast
  then have e: "isl (get_data_to_store demo_world (issue_title empty_issue)
            (issue_body empty_issue) (createdAt empty_issue) (issue_url empty_issue)
            (Some 12345))"
    by (simp only: issue_fields)
  show ?thesis
    using u demo_user_listed twice_validates twice_raises p q issue_fields(18) twice_split
      issue_fields(12) empty_split r e
    by blast
qed





section \<open>The archive index: hot and cold filenames\<close>

lemma update_index_result:
  assumes "update_index z base dep doi rs index removed = (Inr index', removed')"
  shows "github_reports index' = filter (\<lambda>p. fst p \<notin> set rs) (github_reports index)
         \<and> cold index' = cold index \<union> set rs"
  using assms
proof (induction rs arbitrary: index removed)
  case Nil
  then show ?case by simp
next
  case (Cons r rs)
  let ?next = "index\<lparr>github_reports := AList.delete r (github_reports index),
       zenodo_reports := AList.update r \<lparr>entry_url = record_url base dep r,
         entry_doi = ''https://doi.org/'' @ doi\<rparr> (zenodo_reports index)\<rparr>"
  from Cons.prems have step:
    "update_index z base dep doi rs ?next (removed @ [r]) = (Inr index', removed')"
    by (simp add: Let_def split: option.splits)
  from Cons.IH [OF step]
  have "github_reports index'
          = filter (\<lambda>p. fst p \<notin> set rs) (AList.delete r (github_reports index))"
    and "cold index' = cold ?next \<union> set rs"
    by simp_all
  moreover have "cold ?next = insert r (cold index)"
    by (simp add: cold_def dom_update)
  moreover have "filter (\<lambda>p. fst p \<notin> set rs) (AList.delete r (github_reports index))
                   = filter (\<lambda>p. fst p \<notin> set (r # rs)) (github_reports index)"
    by (auto simp: AList.delete_eq intro: filter_cong)
  ultimately show ?case by auto
qed

lemma archive_try_result:
  assumes "archive_try z index rs = (Inr (doi, index'), removed)"
  shows "github_reports index' = filter (\<lambda>p. fst p \<notin> set rs) (github_reports index)
         \<and> cold index' = cold index \<union> set rs"
proof -
  from assms obtain base dep mid where
    u: "update_index z base dep doi rs index [] = (Inr mid, removed)"
    and i: "index' = mid\<lparr>last_archive := Some (now_isoformat z)\<rparr>"
    by (auto simp: archive_try_def split: sum.splits if_splits prod.splits option.splits)
  from update_index_result [OF u] i show ?thesis
    by (simp add: cold_def)
qed

lemma archive_reports_cases:
  assumes "archive_reports z (Some index) = (result, file', removed)"
  shows "(isl result \<and> file' = Some index)
         \<or> (result = Inr None \<and> file' = Some index \<and> github_reports index = [])
         \<or> (\<exists>doi index'. result = Inr (Some doi) \<and> file' = Some index'
              \<and> github_reports index' = [] \<and> cold index' = hot index \<union> cold index)"
proof (cases "github_reports index = []")
  case True
  with assms show ?thesis
    by (auto simp: archive_reports_def load_index_def)
next
  case False
  let ?rs = "sort_key (ctime_key z) (map fst (github_reports index))"
  have rs: "set ?rs = hot index" by (simp add: hot_def)
  from False have ne: "?rs \<noteq> []"
    by (metis rs hot_def image_is_empty set_empty)
  obtain outcome gone where t: "archive_try z index ?rs = (outcome, gone)"
    by (cases "archive_try z index ?rs") auto
  show ?thesis
  proof (cases outcome)
    case (Inl e)
    with assms t ne show ?thesis
      by (auto simp: archive_reports_def load_index_def Let_def)
  next
    case (Inr pair)
    then obtain doi index' where p: "outcome = Inr (doi, index')"
      by (cases pair) auto
    note r = archive_try_result [OF t [unfolded p]]
    have "filter (\<lambda>p. fst p \<notin> set ?rs) (github_reports index) = []"
      by (auto simp: filter_empty_conv)
    with r have g: "github_reports index' = []"
      by simp
    from r have c: "cold index' = hot index \<union> cold index"
      unfolding hot_def by auto
    from assms t p ne have "result = Inr (Some doi)" "file' = Some index'"
      by (auto simp: archive_reports_def load_index_def Let_def)
    with g c show ?thesis by blast
  qed
qed

lemma add_report_result:
  "\<exists>index'. add_report f url (Some index) = Some index'
      \<and> hot index' = insert f (hot index) \<and> cold index' = cold index
      \<and> (disjoint index \<longrightarrow> disjoint index' = (f \<notin> cold index))"
  by (auto simp: add_report_def hot_def cold_def disjoint_def dom_update)

lemma add_report_first:
  "\<exists>index'. add_report f url None = Some index' \<and> hot index' = {f} \<and> cold index' = {}"
  by (simp add: add_report_def init_index_def hot_def cold_def)

text \<open>
  C1, as the code has it. \<^verbatim>\<open>archive_reports\<close> keeps the hot and the cold filenames
  disjoint: it adds nothing to the hot mapping and removes nothing from the cold one;
  when it raises, the index file is unchanged, and when it returns, the hot mapping is
  empty and its filenames are cold. \<^verbatim>\<open>add_report\<close> puts the filename into the hot
  mapping without looking at the cold one: it keeps the two disjoint exactly when the
  filename is not cold already.
\<close>

theorem index_disjointness:
  "(archive_reports z (Some index) = (result, file', removed) \<longrightarrow>
      (\<exists>index'. file' = Some index'
         \<and> hot index' \<subseteq> hot index \<and> cold index \<subseteq> cold index'
         \<and> (disjoint index \<longrightarrow> disjoint index')
         \<and> (isl result \<longrightarrow> index' = index)
         \<and> (\<not> isl result \<longrightarrow> hot index' = {} \<and> cold index' = hot index \<union> cold index)))
   \<and> (\<exists>index'. add_report f url (Some index) = Some index'
         \<and> hot index' = insert f (hot index) \<and> cold index' = cold index
         \<and> (disjoint index \<longrightarrow> disjoint index' = (f \<notin> cold index)))
   \<and> (\<exists>index'. add_report f url None = Some index' \<and> hot index' = {f} \<and> cold index' = {})"
proof (intro conjI impI)
  assume a: "archive_reports z (Some index) = (result, file', removed)"
  from archive_reports_cases [OF a]
  consider (raised) "isl result" "file' = Some index"
    | (nothing) "result = Inr None" "file' = Some index" "github_reports index = []"
    | (archived) doi index' where "result = Inr (Some doi)" "file' = Some index'"
        "github_reports index' = []" "cold index' = hot index \<union> cold index"
    by blast
  then show "\<exists>index'. file' = Some index'
         \<and> hot index' \<subseteq> hot index \<and> cold index \<subseteq> cold index'
         \<and> (disjoint index \<longrightarrow> disjoint index')
         \<and> (isl result \<longrightarrow> index' = index)
         \<and> (\<not> isl result \<longrightarrow> hot index' = {} \<and> cold index' = hot index \<union> cold index)"
  proof cases
    case raised
    then show ?thesis by simp
  next
    case nothing
    then show ?thesis by (simp add: hot_def)
  next
    case archived
    then have "hot index' = {}" by (simp add: hot_def)
    with archived show ?thesis by (simp add: disjoint_def)
  qed
next
  show "\<exists>index'. add_report f url (Some index) = Some index'
         \<and> hot index' = insert f (hot index) \<and> cold index' = cold index
         \<and> (disjoint index \<longrightarrow> disjoint index' = (f \<notin> cold index))"
    by (rule add_report_result)
next
  show "\<exists>index'. add_report f url None = Some index' \<and> hot index' = {f} \<and> cold index' = {}"
    by (rule add_report_first)
qed

lemma demo_zenodo_fields:
  "getctime demo_zenodo ''validation_issue_1.html'' = Some 1700000500"
  "getctime demo_zenodo ''validation_issue_2.html'' = Some 1700000300"
  "zenodo_base_url demo_zenodo = Inr ''https://zenodo.org/api''"
  "create_deposition_resource demo_zenodo = Inr (''77'', ''https://zenodo.org/api/files/bucket'')"
  "put_report demo_zenodo f = None"
  "publish demo_zenodo = Inr ''10.5281/zenodo.77''"
  "os_remove demo_zenodo f = None"
  "now_isoformat demo_zenodo = ''2025-01-01T00:00:00''"
  by (simp_all add: demo_zenodo_def)

lemma first_report: "add_report ''validation_issue_1.html'' ''https://pages/1'' None = Some one_hot"
  by (simp add: add_report_def init_index_def one_hot_def)

lemma one_hot_fields:
  "github_reports one_hot = [(''validation_issue_1.html'', ''https://pages/1'')]"
  "zenodo_reports one_hot = []" "last_archive one_hot = None"
  by (simp_all add: one_hot_def)

lemma one_hot_archived:
  "archive_reports demo_zenodo (Some one_hot)
     = (Inr (Some ''10.5281/zenodo.77''), Some one_cold, [''validation_issue_1.html''])"
proof -
  have t: "archive_try demo_zenodo one_hot [''validation_issue_1.html'']
             = (Inr (''10.5281/zenodo.77'', one_cold), [''validation_issue_1.html''])"
    by (simp add: archive_try_def demo_zenodo_fields one_hot_def one_cold_def record_url_def)
  show ?thesis
    by (simp add: archive_reports_def load_index_def one_hot_fields t)
qed

lemma archived_again:
  "add_report ''validation_issue_1.html'' ''https://pages/1'' (Some one_cold) = Some hot_and_cold"
  by (simp add: add_report_def one_cold_def hot_and_cold_def)

lemma hot_and_cold_sets:
  "hot hot_and_cold = {''validation_issue_1.html''}"
  "cold hot_and_cold = {''validation_issue_1.html''}"
  by (simp_all add: hot_def cold_def hot_and_cold_def one_cold_def)

text \<open>A report that is registered, archived and registered again is hot and cold at
  once.\<close>

theorem archived_report_registered_again:
  "add_report ''validation_issue_1.html'' ''https://pages/1'' None = Some one_hot
   \<and> archive_reports demo_zenodo (Some one_hot)
       = (Inr (Some ''10.5281/zenodo.77''), Some one_cold, [''validation_issue_1.html''])
   \<and> add_report ''validation_issue_1.html'' ''https://pages/1'' (Some one_cold)
       = Some hot_and_cold
   \<and> disjoint one_cold
   \<and> hot hot_and_cold = {''validation_issue_1.html''}
   \<and> cold hot_and_cold = {''validation_issue_1.html''}
   \<and> \<not> disjoint hot_and_cold"
  by (simp add: first_report one_hot_archived archived_again hot_and_cold_sets disjoint_def)
     (simp add: hot_def one_cold_def)

lemma second_report:
  "add_report ''validation_issue_2.html'' ''https://pages/2'' (Some one_hot) = Some two_hot"
  by (simp add: add_report_def one_hot_def two_hot_def)

lemma example_sets:
  "hot one_hot = {''validation_issue_1.html''}" "cold one_hot = {}"
  "hot one_cold = {}" "cold one_cold = {''validation_issue_1.html''}"
  "hot two_hot = {''validation_issue_1.html'', ''validation_issue_2.html''}" "cold two_hot = {}"
  by (simp_all add: hot_def cold_def one_hot_def one_cold_def two_hot_def)

theorem index_disjointness_witness:
  "archive_reports demo_zenodo (Some one_hot)
     = (Inr (Some ''10.5281/zenodo.77''), Some one_cold, [''validation_issue_1.html''])
   \<and> disjoint one_hot \<and> disjoint one_cold
   \<and> hot one_cold = {} \<and> cold one_cold = {''validation_issue_1.html''}
   \<and> add_report ''validation_issue_2.html'' ''https://pages/2'' (Some one_hot) = Some two_hot
   \<and> ''validation_issue_2.html'' \<notin> cold one_hot
   \<and> disjoint two_hot"
proof -
  note d = index_disjointness [of demo_zenodo one_hot "Inr (Some ''10.5281/zenodo.77'')"
      "Some one_cold" "[''validation_issue_1.html'']" "''validation_issue_2.html''"
      "''https://pages/2''"]
  have a: "disjoint one_hot"
    by (simp add: disjoint_def example_sets)
  have b: "disjoint one_cold"
    using d a by (simp add: one_hot_archived)
  have c: "disjoint two_hot"
    using d a by (simp add: second_report example_sets)
  show ?thesis
    using a b c by (simp add: one_hot_archived second_report example_sets)
qed

lemma hot_card:
  assumes "distinct (map fst (github_reports index))"
  shows "card (hot index) = length (github_reports index)"
proof -
  have "hot index = set (map fst (github_reports index))"
    by (simp add: hot_def)
  with distinct_card [OF assms] show ?thesis by simp
qed

lemma hot_keys_distinct:
  assumes "distinct (map fst (github_reports index))"
  shows "add_report f url (Some index) = Some index' \<Longrightarrow> distinct (map fst (github_reports index'))"
    and "archive_reports z (Some index) = (result, Some index', removed)
           \<Longrightarrow> distinct (map fst (github_reports index'))"
proof -
  show "distinct (map fst (github_reports index'))"
    if "add_report f url (Some index) = Some index'"
    using that assms by (auto simp: add_report_def distinct_update)
  show "distinct (map fst (github_reports index'))"
    if "archive_reports z (Some index) = (result, Some index', removed)"
    using archive_reports_cases [OF that] assms by auto
qed

text \<open>
  C6. \<^verbatim>\<open>needs_archival\<close> is true exactly when the number of filenames in the hot
  mapping is at least the threshold. A run of \<^verbatim>\<open>archive_reports\<close> that returns leaves
  the hot mapping empty, so right after it \<^verbatim>\<open>needs_archival\<close> is false for every
  threshold above zero.
\<close>

theorem needs_archival_threshold:
  "(distinct (map fst (github_reports index)) \<longrightarrow>
      needs_archival threshold (Some index) = Inr (threshold \<le> int (card (hot index))))
   \<and> (archive_reports z (Some index) = (Inr r, file', removed) \<longrightarrow>
        (\<exists>index'. file' = Some index' \<and> github_reports index' = []
           \<and> needs_archival threshold file' = Inr (threshold \<le> 0)))
   \<and> (archive_reports z (Some index) = (Inr r, file', removed) \<and> 0 < threshold \<longrightarrow>
        needs_archival threshold file' = Inr False)"
proof -
  have one: "needs_archival threshold (Some index) = Inr (threshold \<le> int (card (hot index)))"
    if "distinct (map fst (github_reports index))"
    using hot_card [OF that] by (simp add: needs_archival_def load_index_def)
  have two: "\<exists>index'. file' = Some index' \<and> github_reports index' = []
           \<and> needs_archival threshold file' = Inr (threshold \<le> 0)"
    if "archive_reports z (Some index) = (Inr r, file', removed)"
  proof -
    from archive_reports_cases [OF that]
    obtain index' where "file' = Some index'" "github_reports index' = []"
      by auto
    then show ?thesis
      by (simp add: needs_archival_def load_index_def)
  qed
  have three: "needs_archival threshold file' = Inr False"
    if "archive_reports z (Some index) = (Inr r, file', removed) \<and> 0 < threshold"
    using two that by auto
  show ?thesis
    using one two three by blast
qed

lemma two_hot_archived:
  "archive_reports demo_zenodo (Some two_hot)
     = (Inr (Some ''10.5281/zenodo.77''), Some two_cold,
        [''validation_issue_2.html'', ''validation_issue_1.html''])"
proof -
  have k: "ctime_key demo_zenodo ''validation_issue_1.html'' = 1700000500"
    "ctime_key demo_zenodo ''validation_issue_2.html'' = 1700000300"
    by (simp_all add: ctime_key_def demo_zenodo_fields)
  have s: "sort_key (ctime_key demo_zenodo) (map fst (github_reports two_hot))
             = [''validation_issue_2.html'', ''validation_issue_1.html'']"
    by (simp add: two_hot_def k)
  have t: "archive_try demo_zenodo two_hot [''validation_issue_2.html'', ''validation_issue_1.html'']
             = (Inr (''10.5281/zenodo.77'', two_cold),
                [''validation_issue_2.html'', ''validation_issue_1.html''])"
    by (simp add: archive_try_def demo_zenodo_fields two_hot_def two_cold_def record_url_def)
  show ?thesis
    by (simp add: archive_reports_def load_index_def s t)
qed

theorem needs_archival_threshold_witness:
  "distinct (map fst (github_reports two_hot))
   \<and> needs_archival 2 (Some two_hot) = Inr True
   \<and> needs_archival 3 (Some two_hot) = Inr False
   \<and> archive_reports demo_zenodo (Some two_hot)
       = (Inr (Some ''10.5281/zenodo.77''), Some two_cold,
          [''validation_issue_2.html'', ''validation_issue_1.html''])
   \<and> github_reports two_cold = []
   \<and> needs_archival 2 (Some two_cold) = Inr False"
proof -
  have d: "distinct (map fst (github_reports two_hot))"
    by (simp add: two_hot_def)
  have c: "card (hot two_hot) = 2"
    by (simp add: example_sets)
  note n2 = needs_archival_threshold [of two_hot 2 demo_zenodo "Some ''10.5281/zenodo.77''"
      "Some two_cold" "[''validation_issue_2.html'', ''validation_issue_1.html'']"]
  note n3 = needs_archival_threshold [of two_hot 3 demo_zenodo "Some ''10.5281/zenodo.77''"
      "Some two_cold" "[''validation_issue_2.html'', ''validation_issue_1.html'']"]
  have a: "needs_archival 2 (Some two_hot) = Inr True"
    using n2 d c by simp
  have b: "needs_archival 3 (Some two_hot) = Inr False"
    using n3 d c by simp
  have e: "needs_archival 2 (Some two_cold) = Inr False"
    using n2 two_hot_archived by simp
  have g: "github_reports two_cold = []"
    by (simp add: two_cold_def)
  show ?thesis
    using d a b e g two_hot_archived by blast
qed

end
